theory Spec2Isabelle
  imports Complex_Main "HOL-Library.Sublist" "HOL-Library.Log_Nat"
begin

chapter \<open>Lab-report table interpretation: a model of \<^verbatim>\<open>src/main.py\<close>\<close>

text \<open>
  The development embeds the functions of \<^verbatim>\<open>main.py\<close> that turn the tables found in a
  lab-report image into \<^verbatim>\<open>LabTest\<close> records: \<^verbatim>\<open>parse_reference_range\<close>,
  \<^verbatim>\<open>is_out_of_range\<close> and the body of \<^verbatim>\<open>get_lab_tests\<close> (cleaning of a table,
  assignment of columns to roles, the loop over rows, the loop over tables and the
  response). The library calls the code makes (\<^verbatim>\<open>str\<close> methods, \<^verbatim>\<open>re.match\<close>,
  \<^verbatim>\<open>float\<close>, the pandas operations) are modelled by executable functions.

  Scope of the model. Text is a list of 8-bit characters read as ASCII: the character
  classes below (\<^verbatim>\<open>\s\<close>, \<^verbatim>\<open>\d\<close>, \<^verbatim>\<open>str.lower\<close>) are Python's restricted to
  code points below 128, and a character above 127 is in none of them. A data frame is a
  list of column labels (each label as \<^verbatim>\<open>str\<close> prints it) and a list of rows. pandas keeps
  a frame rectangular, which the predicate \<open>rectangular\<close> states, and the extraction
  library labels the columns of a table with their positions, so the labels of a frame
  are distinct and a label stands for one column. Image decoding, preprocessing, table
  detection and file handling are not modelled: their outcomes are inputs of
  \<open>get_lab_tests\<close>.
\<close>

section \<open>Python strings\<close>

definition ascii_upper :: string where
  "ascii_upper = ''ABCDEFGHIJKLMNOPQRSTUVWXYZ''"

definition ascii_lower :: string where
  "ascii_lower = ''abcdefghijklmnopqrstuvwxyz''"

definition py_digits :: string where
  "py_digits = ''0123456789''"

text \<open>\<^verbatim>\<open>str.isspace\<close> and the class \<^verbatim>\<open>\s\<close> of a \<^verbatim>\<open>str\<close> pattern, on ASCII: tab, line feed,
  vertical tab, form feed, carriage return, the four separators 0x1C to 0x1F, space.\<close>

definition py_space :: string where
  "py_space = [CHR 0x09, CHR 0x0A, CHR 0x0B, CHR 0x0C, CHR 0x0D,
               CHR 0x1C, CHR 0x1D, CHR 0x1E, CHR 0x1F, CHR 0x20]"

definition isspace :: "char \<Rightarrow> bool" where
  "isspace c = (c \<in> set py_space)"

definition isdigit :: "char \<Rightarrow> bool" where
  "isdigit c = (c \<in> set py_digits)"

definition lower_char :: "char \<Rightarrow> char" where
  "lower_char c = (case map_of (zip ascii_upper ascii_lower) c of Some d \<Rightarrow> d | None \<Rightarrow> c)"

definition py_lower :: "string \<Rightarrow> string" where
  "py_lower s = map lower_char s"

definition py_strip :: "string \<Rightarrow> string" where
  "py_strip s = rev (dropWhile isspace (rev (dropWhile isspace s)))"

text \<open>\<^verbatim>\<open>s.split()\<close>: the maximal runs of characters that are not whitespace. The first
  argument holds the run being read, reversed.\<close>

fun split_aux :: "string \<Rightarrow> string \<Rightarrow> string list" where
  "split_aux cur [] = (if cur = [] then [] else [rev cur])"
| "split_aux cur (c # cs) =
     (if isspace c then (if cur = [] then split_aux [] cs else rev cur # split_aux [] cs)
      else split_aux (c # cur) cs)"

definition py_split :: "string \<Rightarrow> string list" where
  "py_split s = split_aux [] s"

fun py_join :: "string \<Rightarrow> string list \<Rightarrow> string" where
  "py_join sep [] = []"
| "py_join sep [x] = x"
| "py_join sep (x # y # ys) = x @ sep @ py_join sep (y # ys)"

text \<open>\<^verbatim>\<open>sub in s\<close> for two strings.\<close>

fun py_in :: "string \<Rightarrow> string \<Rightarrow> bool" where
  "py_in sub [] = (sub = [])"
| "py_in sub (c # cs) = (prefix sub (c # cs) \<or> py_in sub cs)"

section \<open>Regular expressions\<close>

text \<open>
  The patterns of the source use character classes, concatenation, \<^verbatim>\<open>*\<close>, \<^verbatim>\<open>+\<close> and
  \<^verbatim>\<open>?\<close>. \<^verbatim>\<open>re.match(p, s)\<close> succeeds when some prefix of \<open>s\<close> is in the language of
  \<open>p\<close>; whether it does is decided with derivatives. \<open>lang\<close> is the language, used in the
  proofs only.
\<close>

datatype rx = RNone | REmpty | RClass "char list" | RSeq rx rx | RAlt rx rx | RStar rx

definition RPlus :: "rx \<Rightarrow> rx" where
  "RPlus r = RSeq r (RStar r)"

definition ROpt :: "rx \<Rightarrow> rx" where
  "ROpt r = RAlt r REmpty"

fun nullable :: "rx \<Rightarrow> bool" where
  "nullable RNone = False"
| "nullable REmpty = True"
| "nullable (RClass cs) = False"
| "nullable (RSeq r s) = (nullable r \<and> nullable s)"
| "nullable (RAlt r s) = (nullable r \<or> nullable s)"
| "nullable (RStar r) = True"

fun deriv :: "char \<Rightarrow> rx \<Rightarrow> rx" where
  "deriv c RNone = RNone"
| "deriv c REmpty = RNone"
| "deriv c (RClass cs) = (if c \<in> set cs then REmpty else RNone)"
| "deriv c (RSeq r s) =
     (if nullable r then RAlt (RSeq (deriv c r) s) (deriv c s) else RSeq (deriv c r) s)"
| "deriv c (RAlt r s) = RAlt (deriv c r) (deriv c s)"
| "deriv c (RStar r) = RSeq (deriv c r) (RStar r)"

text \<open>\<^verbatim>\<open>re.match(r, s) is not None\<close>.\<close>

fun re_match :: "rx \<Rightarrow> string \<Rightarrow> bool" where
  "re_match r [] = nullable r"
| "re_match r (c # cs) = (nullable r \<or> re_match (deriv c r) cs)"

text \<open>\<^verbatim>\<open>re.match(r + '$', s) is not None\<close>: \<^verbatim>\<open>$\<close> holds at the end of the string and
  before a line feed that ends it.\<close>

fun re_match_dollar :: "rx \<Rightarrow> string \<Rightarrow> bool" where
  "re_match_dollar r [] = nullable r"
| "re_match_dollar r (c # cs) =
     ((nullable r \<and> c = CHR 0x0A \<and> cs = []) \<or> re_match_dollar (deriv c r) cs)"

inductive_set star :: "string set \<Rightarrow> string set" for A :: "string set" where
  star_nil: "[] \<in> star A"
| star_step: "u \<in> A \<Longrightarrow> v \<in> star A \<Longrightarrow> u @ v \<in> star A"

fun lang :: "rx \<Rightarrow> string set" where
  "lang RNone = {}"
| "lang REmpty = {[]}"
| "lang (RClass cs) = {[c] | c. c \<in> set cs}"
| "lang (RSeq r s) = {u @ v | u v. u \<in> lang r \<and> v \<in> lang s}"
| "lang (RAlt r s) = lang r \<union> lang s"
| "lang (RStar r) = star (lang r)"

section \<open>\<^verbatim>\<open>float(s)\<close>\<close>

text \<open>
  A Python float is a binary64 number, an infinity or a NaN. \<open>Finite q\<close> is only built by
  \<open>binary64\<close>, which rounds a rational to the nearest binary64 number, ties to even, as the
  conversion of a decimal string does.
\<close>

datatype pyfloat = Finite rat | PInf | NInf | NaN

text \<open>\<^verbatim>\<open>x < y\<close> on floats; \<^verbatim>\<open>x > y\<close> is \<open>flt_less y x\<close>. A comparison with a NaN is false.\<close>

fun flt_less :: "pyfloat \<Rightarrow> pyfloat \<Rightarrow> bool" where
  "flt_less (Finite a) (Finite b) = (a < b)"
| "flt_less (Finite a) PInf = True"
| "flt_less NInf (Finite b) = True"
| "flt_less NInf PInf = True"
| "flt_less x y = False"

definition pow2 :: "int \<Rightarrow> rat" where
  "pow2 k = (if 0 \<le> k then 2 ^ nat k else 1 / 2 ^ nat (- k))"

definition pow10 :: "int \<Rightarrow> rat" where
  "pow10 k = (if 0 \<le> k then 10 ^ nat k else 1 / 10 ^ nat (- k))"

text \<open>For \<open>0 < x\<close>, the \<open>e\<close> with \<open>2 ^ e \<le> x < 2 ^ (e + 1)\<close>.\<close>

definition floor_log2 :: "rat \<Rightarrow> int" where
  "floor_log2 x = (if 1 \<le> x then bitlen \<lfloor>x\<rfloor> - 1 else - bitlen (\<lceil>1 / x\<rceil> - 1))"

definition round_half_even :: "rat \<Rightarrow> int" where
  "round_half_even x =
     (let f = \<lfloor>x\<rfloor>; d = x - of_int f
      in if d < 1 / 2 then f else if 1 / 2 < d then f + 1 else if even f then f else f + 1)"

text \<open>53 bits of precision, exponents from -1022 (below it the spacing stays \<open>2 ^ -1074\<close>,
  the subnormal numbers) to 1023 (a result of \<open>2 ^ 1024\<close> or more is an infinity).\<close>

definition binary64 :: "rat \<Rightarrow> pyfloat" where
  "binary64 q =
     (if q = 0 then Finite 0
      else let a = \<bar>q\<bar>;
               e = max (floor_log2 a) (- 1022);
               ulp = pow2 (e - 52);
               r = of_int (round_half_even (a / ulp)) * ulp
           in if pow2 1024 \<le> r then (if 0 < q then PInf else NInf)
              else Finite (if 0 < q then r else - r))"

text \<open>The whitespace \<^verbatim>\<open>float\<close> strips from an ASCII string (C's \<^verbatim>\<open>isspace\<close>).\<close>

definition c_space :: string where
  "c_space = [CHR 0x09, CHR 0x0A, CHR 0x0B, CHR 0x0C, CHR 0x0D, CHR 0x20]"

definition c_strip :: "string \<Rightarrow> string" where
  "c_strip s = rev (dropWhile (\<lambda>c. c \<in> set c_space) (rev (dropWhile (\<lambda>c. c \<in> set c_space) s)))"

text \<open>An underscore is accepted between two digits only, and removed. The first argument
  is the character before.\<close>

fun strip_underscores :: "char \<Rightarrow> string \<Rightarrow> string option" where
  "strip_underscores prev [] = (if prev = CHR ''_'' then None else Some [])"
| "strip_underscores prev (c # cs) =
     (if c = CHR ''_'' then (if isdigit prev then strip_underscores c cs else None)
      else if prev = CHR ''_'' \<and> \<not> isdigit c then None
      else map_option ((#) c) (strip_underscores c cs))"

definition digit_of :: "char \<Rightarrow> int" where
  "digit_of c = of_char c - 48"

definition digits_val :: "string \<Rightarrow> int" where
  "digits_val ds = foldl (\<lambda>a c. 10 * a + digit_of c) 0 ds"

definition split_sign :: "string \<Rightarrow> bool \<times> string" where
  "split_sign s =
     (case s of
        [] \<Rightarrow> (False, [])
      | c # r \<Rightarrow> if c = CHR ''-'' then (True, r) else if c = CHR ''+'' then (False, r) else (False, s))"

definition parse_exponent :: "string \<Rightarrow> int option" where
  "parse_exponent s =
     (case s of
        [] \<Rightarrow> Some 0
      | c # r \<Rightarrow>
          if c = CHR ''e'' \<or> c = CHR ''E'' then
            (let (neg, ds) = split_sign r
             in if ds \<noteq> [] \<and> list_all isdigit ds
                then Some (if neg then - digits_val ds else digits_val ds)
                else None)
          else None)"

text \<open>Digits, an optional point, digits (a digit at least on one side), an optional
  exponent, and nothing after: the exact value as a rational.\<close>

definition parse_number :: "string \<Rightarrow> rat option" where
  "parse_number s =
     (let ip = takeWhile isdigit s;
          r1 = dropWhile isdigit s;
          fp = (case r1 of [] \<Rightarrow> [] | c # r \<Rightarrow> if c = CHR ''.'' then takeWhile isdigit r else []);
          r2 = (case r1 of [] \<Rightarrow> [] | c # r \<Rightarrow> if c = CHR ''.'' then dropWhile isdigit r else r1)
      in if ip = [] \<and> fp = [] then None
         else case parse_exponent r2 of
                None \<Rightarrow> None
              | Some e \<Rightarrow> Some (of_int (digits_val (ip @ fp)) * pow10 (e - int (length fp))))"

text \<open>\<^verbatim>\<open>float(s)\<close> for a string; \<open>None\<close> is the \<^verbatim>\<open>ValueError\<close>.\<close>

definition py_float :: "string \<Rightarrow> pyfloat option" where
  "py_float s =
     (let t = c_strip s
      in if t = [] then None
         else case strip_underscores (CHR 0x00) t of
                None \<Rightarrow> None
              | Some u \<Rightarrow>
                  (let (neg, body) = split_sign u
                   in if py_lower body = ''inf'' \<or> py_lower body = ''infinity''
                      then Some (if neg then NInf else PInf)
                      else if py_lower body = ''nan'' then Some NaN
                      else map_option (\<lambda>q. binary64 (if neg then - q else q)) (parse_number body)))"

section \<open>\<^verbatim>\<open>parse_reference_range\<close> and \<^verbatim>\<open>is_out_of_range\<close>\<close>

datatype py_exception = ValueError | OSError | RuntimeError

definition digdot :: string where
  "digdot = py_digits @ ''.''"

definition isdigdot :: "char \<Rightarrow> bool" where
  "isdigdot c = (c \<in> set digdot)"

text \<open>\<^verbatim>\<open>([\d.]+)\s*-\s*([\d.]+)\<close>\<close>

definition RANGE_RE :: rx where
  "RANGE_RE =
     RSeq (RPlus (RClass digdot))
       (RSeq (RStar (RClass py_space))
         (RSeq (RClass ''-'')
           (RSeq (RStar (RClass py_space)) (RPlus (RClass digdot)))))"

text \<open>
  The groups of a match. Every match of the pattern starts with the longest run of
  digits and points (the character after group 1 is whitespace or the hyphen), and the
  greedy \<^verbatim>\<open>+\<close> of group 2 takes the longest run after the second whitespace; the
  lemmas \<open>scan_groups\<close> and \<open>range_match_groups\<close> below relate the two functions to the
  pattern.
\<close>

definition group1 :: "string \<Rightarrow> string" where
  "group1 s = takeWhile isdigdot s"

definition group2 :: "string \<Rightarrow> string" where
  "group2 s =
     takeWhile isdigdot (dropWhile isspace (tl (dropWhile isspace (dropWhile isdigdot s))))"

text \<open>\<open>Inl\<close> is the exception \<^verbatim>\<open>float\<close> raises; the function has no handler.\<close>

definition parse_reference_range ::
  "string \<Rightarrow> py_exception + (pyfloat option \<times> pyfloat option)" where
  "parse_reference_range ref_range =
     (if re_match RANGE_RE ref_range then
        (case py_float (group1 ref_range) of
           None \<Rightarrow> Inl ValueError
         | Some lo \<Rightarrow>
             (case py_float (group2 ref_range) of
                None \<Rightarrow> Inl ValueError
              | Some hi \<Rightarrow> Inr (Some lo, Some hi)))
      else Inr (None, None))"

text \<open>The \<^verbatim>\<open>try\<close> block runs the parser, then \<^verbatim>\<open>float(value)\<close>, then the test; every
  exception ends in \<^verbatim>\<open>return None\<close>.\<close>

definition is_out_of_range :: "string \<Rightarrow> string \<Rightarrow> bool option" where
  "is_out_of_range v ref_range =
     (case parse_reference_range ref_range of
        Inl e \<Rightarrow> None
      | Inr (low, high) \<Rightarrow>
          (case py_float v of
             None \<Rightarrow> None
           | Some x \<Rightarrow>
               (case (low, high) of
                  (Some lo, Some hi) \<Rightarrow> Some (flt_less x lo \<or> flt_less hi x)
                | _ \<Rightarrow> None)))"

section \<open>Data frames\<close>

text \<open>
  A cell of a table is a string, Python's \<^verbatim>\<open>None\<close> (a cell without text) or the
  \<^verbatim>\<open>np.nan\<close> that \<^verbatim>\<open>replace\<close> writes. pandas counts the last two as missing; \<^verbatim>\<open>str\<close>
  turns them into \<^verbatim>\<open>'None'\<close> and \<^verbatim>\<open>'nan'\<close>.
\<close>

datatype cell = Str string | PyNone | NanCell

definition isna :: "cell \<Rightarrow> bool" where
  "isna c = (case c of Str s \<Rightarrow> False | PyNone \<Rightarrow> True | NanCell \<Rightarrow> True)"

definition py_str :: "cell \<Rightarrow> string" where
  "py_str c = (case c of Str s \<Rightarrow> s | PyNone \<Rightarrow> ''None'' | NanCell \<Rightarrow> ''nan'')"

record dataframe =
  df_columns :: "string list"
  df_rows :: "cell list list"

definition rectangular :: "dataframe \<Rightarrow> bool" where
  "rectangular df = list_all (\<lambda>r. length r = length (df_columns df)) (df_rows df)"

text \<open>\<^verbatim>\<open>df.shape\<close>\<close>

definition shape :: "dataframe \<Rightarrow> nat \<times> nat" where
  "shape df = (length (df_rows df), length (df_columns df))"

text \<open>\<^verbatim>\<open>df.replace(old, np.nan)\<close>\<close>

definition df_replace :: "string \<Rightarrow> dataframe \<Rightarrow> dataframe" where
  "df_replace old df =
     df\<lparr>df_rows := map (map (\<lambda>c. if c = Str old then NanCell else c)) (df_rows df)\<rparr>"

text \<open>\<^verbatim>\<open>df.dropna(how='all')\<close>\<close>

definition dropna_rows :: "dataframe \<Rightarrow> dataframe" where
  "dropna_rows df = df\<lparr>df_rows := filter (\<lambda>r. \<not> list_all isna r) (df_rows df)\<rparr>"

definition column_cells :: "dataframe \<Rightarrow> nat \<Rightarrow> cell list" where
  "column_cells df j = map (\<lambda>r. r ! j) (df_rows df)"

text \<open>\<^verbatim>\<open>df.dropna(axis=1, how='all')\<close>: \<open>kept_columns\<close> are the positions that stay.\<close>

definition kept_columns :: "dataframe \<Rightarrow> nat list" where
  "kept_columns df =
     filter (\<lambda>j. \<not> list_all isna (column_cells df j)) [0..<length (df_columns df)]"

definition dropna_columns :: "dataframe \<Rightarrow> dataframe" where
  "dropna_columns df =
     \<lparr>df_columns = map (\<lambda>j. df_columns df ! j) (kept_columns df),
      df_rows = map (\<lambda>r. map (\<lambda>j. r ! j) (kept_columns df)) (df_rows df)\<rparr>"

text \<open>Lines 120 to 123 of \<^verbatim>\<open>get_lab_tests\<close>.\<close>

definition clean_table :: "dataframe \<Rightarrow> dataframe" where
  "clean_table df =
     dropna_columns (dropna_rows (df_replace [] (df_replace ''None'' df)))"

text \<open>Line 126.\<close>

definition too_small :: "dataframe \<Rightarrow> bool" where
  "too_small df = (fst (shape df) < 2 \<or> snd (shape df) < 2)"

text \<open>The normalizer as a whole: the cleaned table, or \<open>None\<close> for a table that is
  skipped as too small.\<close>

definition normalize_table :: "dataframe \<Rightarrow> dataframe option" where
  "normalize_table df = (if too_small (clean_table df) then None else Some (clean_table df))"

text \<open>Step 1 of the normalizer in the words of the specification: a cell equal to one of
  the placeholder tokens \<^verbatim>\<open>"None"\<close> and \<^verbatim>\<open>""\<close> becomes "no value". The two
  \<^verbatim>\<open>replace\<close> calls of the code are compared with it below.\<close>

definition spec_blank :: "cell \<Rightarrow> cell" where
  "spec_blank c = (if c = Str ''None'' \<or> c = Str [] then NanCell else c)"

section \<open>Assignment of columns to roles\<close>

text \<open>The keys of \<^verbatim>\<open>col_map\<close>; its values are column labels.\<close>

datatype role = Test_Name | Test_Value | Bio_Reference_Range | Test_Unit

type_synonym col_map = "role \<Rightarrow> string option"

definition all_roles :: "role list" where
  "all_roles = [Test_Name, Test_Value, Bio_Reference_Range, Test_Unit]"

text \<open>\<^verbatim>\<open>len(col_map)\<close>\<close>

definition dict_len :: "col_map \<Rightarrow> nat" where
  "dict_len cm = length (filter (\<lambda>r. cm r \<noteq> None) all_roles)"

definition name_words :: "string list" where
  "name_words = [''test'', ''parameter'', ''investigation'', ''rbc'', ''wbc'', ''hb'', ''platelet'']"

definition unit_words :: "string list" where
  "unit_words = [''g/dl'', ''mg/dl'', ''iu/l'', ''mmol/l'', ''/cumm'', ''%'', ''fl'', ''pg'']"

text \<open>\<^verbatim>\<open>^\d*\.?\d+\s*[a-zA-Z/]*$\<close>, without the \<^verbatim>\<open>$\<close> (see \<open>re_match_dollar\<close>).\<close>

definition VALUE_RE :: rx where
  "VALUE_RE =
     RSeq (RStar (RClass py_digits))
       (RSeq (ROpt (RClass ''.''))
         (RSeq (RPlus (RClass py_digits))
           (RSeq (RStar (RClass py_space))
             (RStar (RClass (ascii_lower @ ascii_upper @ ''/''))))))"

text \<open>\<^verbatim>\<open>[\d.]+[\s-]+[\d.]+\<close>\<close>

definition RANGE_CELL_RE :: rx where
  "RANGE_CELL_RE =
     RSeq (RPlus (RClass digdot)) (RSeq (RPlus (RClass (py_space @ ''-''))) (RPlus (RClass digdot)))"

text \<open>\<^verbatim>\<open>df[col].dropna().astype(str).tolist()\<close> for the column at position \<open>j\<close>.\<close>

definition sample_values :: "dataframe \<Rightarrow> nat \<Rightarrow> string list" where
  "sample_values df j = map py_str (filter (\<lambda>c. \<not> isna c) (column_cells df j))"

text \<open>The body of the loop over the columns (lines 136 to 165): the key the column is
  stored under, if any. \<open>col\<close> is \<^verbatim>\<open>str(col)\<close>.\<close>

definition classify_column :: "string \<Rightarrow> string list \<Rightarrow> role option" where
  "classify_column col vals =
     (let col_lower = py_lower col in
      if vals = [] then None
      else if list_ex (\<lambda>val. list_ex (\<lambda>word. py_in word (py_lower val)) name_words) vals
        then Some Test_Name
      else if list_ex (\<lambda>val. re_match_dollar VALUE_RE (py_strip val)) vals
        then Some Test_Value
      else if list_ex (\<lambda>val. re_match RANGE_CELL_RE (py_strip val)) vals
        then Some Bio_Reference_Range
      else if list_ex (\<lambda>val. list_ex (\<lambda>unit. py_in unit (py_lower val)) unit_words) vals
        then Some Test_Unit
      else if py_in ''test'' col_lower \<and> (py_in ''name'' col_lower \<or> py_in ''parameter'' col_lower)
        then Some Test_Name
      else if py_in ''value'' col_lower \<or> py_in ''result'' col_lower
        then Some Test_Value
      else if py_in ''range'' col_lower \<or> py_in ''reference'' col_lower
        then Some Bio_Reference_Range
      else if py_in ''unit'' col_lower
        then Some Test_Unit
      else None)"

definition column_role :: "dataframe \<Rightarrow> nat \<Rightarrow> role option" where
  "column_role df j = classify_column (df_columns df ! j) (sample_values df j)"

text \<open>The loop \<^verbatim>\<open>for col in df.columns\<close>, over the positions that remain; an assignment
  \<^verbatim>\<open>col_map[key] = col\<close> replaces what the key held.\<close>

fun assign_loop :: "dataframe \<Rightarrow> nat list \<Rightarrow> col_map \<Rightarrow> col_map" where
  "assign_loop df [] cm = cm"
| "assign_loop df (j # js) cm =
     (case column_role df j of
        None \<Rightarrow> assign_loop df js cm
      | Some key \<Rightarrow> assign_loop df js (cm(key \<mapsto> df_columns df ! j)))"

definition assign_columns :: "dataframe \<Rightarrow> col_map" where
  "assign_columns df = assign_loop df [0..<length (df_columns df)] Map.empty"

text \<open>Lines 173 to 181.\<close>

definition positional_fallback :: "string list \<Rightarrow> col_map \<Rightarrow> col_map" where
  "positional_fallback columns cm =
     (let cm1 = (if cm Test_Name = None \<and> 0 < length columns
                 then cm(Test_Name \<mapsto> columns ! 0) else cm);
          cm2 = (if cm1 Test_Value = None \<and> 1 < length columns
                 then cm1(Test_Value \<mapsto> columns ! 1) else cm1);
          cm3 = (if cm2 Bio_Reference_Range = None \<and> 2 < length columns
                 then cm2(Bio_Reference_Range \<mapsto> columns ! 2) else cm2);
          cm4 = (if cm3 Test_Unit = None \<and> 3 < length columns
                 then cm3(Test_Unit \<mapsto> columns ! 3) else cm3)
      in cm4)"

text \<open>The position lines 174 to 181 read for each key.\<close>

fun fallback_position :: "role \<Rightarrow> nat" where
  "fallback_position Test_Name = 0"
| "fallback_position Test_Value = 1"
| "fallback_position Bio_Reference_Range = 2"
| "fallback_position Test_Unit = 3"

text \<open>The column classifier as a whole: \<open>None\<close> for a table that is skipped at line 169.\<close>

definition column_mapping :: "dataframe \<Rightarrow> col_map option" where
  "column_mapping df =
     (let cm = assign_columns df
      in if dict_len cm < 2 then None else Some (positional_fallback (df_columns df) cm))"

section \<open>Rows\<close>

record LabTest =
  test_name :: string
  test_value :: string
  bio_reference_range :: string
  test_unit :: string
  lab_test_out_of_range :: bool

text \<open>\<^verbatim>\<open>str(row.get(col_map.get(key, ''), ''))\<close>: the cell under the label the key is mapped
  to, the empty string when no column has that label.\<close>

definition row_get :: "col_map \<Rightarrow> string list \<Rightarrow> cell list \<Rightarrow> role \<Rightarrow> string" where
  "row_get cm columns row key =
     (let label = (case cm key of None \<Rightarrow> [] | Some col \<Rightarrow> col)
      in case map_of (zip columns row) label of None \<Rightarrow> [] | Some c \<Rightarrow> py_str c)"

text \<open>\<^verbatim>\<open>not s or s.lower() in ['none', 'nan', '']\<close>\<close>

definition placeholder :: "string \<Rightarrow> bool" where
  "placeholder s = (s = [] \<or> py_lower s \<in> set [''none'', ''nan'', []])"

text \<open>Lines 195 to 199: the value and the unit after the split.\<close>

definition split_value_unit :: "string \<Rightarrow> string \<Rightarrow> string \<times> string" where
  "split_value_unit v u =
     (if u = [] \<and> CHR ''/'' \<in> set v then
        (let parts = py_split v
         in if 1 < length parts then (hd parts, py_join '' '' (tl parts)) else (v, u))
      else (v, u))"

text \<open>The body of the \<^verbatim>\<open>try\<close> block of a row (lines 185 to 216): \<open>Inr None\<close> is a
  \<^verbatim>\<open>continue\<close>, \<open>Inr (Some t)\<close> the record that is appended. No step of the body raises on a
  well-formed table, so the body never returns \<open>Inl\<close>.\<close>

definition process_row :: "col_map \<Rightarrow> string list \<Rightarrow> cell list \<Rightarrow> py_exception + LabTest option" where
  "process_row cm columns row =
     (let name = py_strip (row_get cm columns row Test_Name);
          v = py_strip (row_get cm columns row Test_Value);
          rng = py_strip (row_get cm columns row Bio_Reference_Range);
          u = py_strip (row_get cm columns row Test_Unit)
      in if placeholder name then Inr None
         else if placeholder v then Inr None
         else let (v', u') = split_value_unit v u;
                  out_of_range = (case is_out_of_range v' rng of None \<Rightarrow> False | Some b \<Rightarrow> b)
              in Inr (Some \<lparr>test_name = name, test_value = v', bio_reference_range = rng,
                             test_unit = u', lab_test_out_of_range = out_of_range\<rparr>))"

text \<open>The loop over the rows with its handler (lines 183 to 219): an exception of the
  body is caught and the loop goes on with the next row.\<close>

fun rows_loop ::
  "(cell list \<Rightarrow> py_exception + LabTest option) \<Rightarrow> cell list list \<Rightarrow> LabTest list \<Rightarrow> LabTest list" where
  "rows_loop body [] lab_tests = lab_tests"
| "rows_loop body (row # rest) lab_tests =
     (case body row of
        Inl e \<Rightarrow> rows_loop body rest lab_tests
      | Inr None \<Rightarrow> rows_loop body rest lab_tests
      | Inr (Some t) \<Rightarrow> rows_loop body rest (lab_tests @ [t]))"

section \<open>Tables and the response\<close>

text \<open>The body of the loop over the tables (lines 118 to 219).\<close>

definition process_table :: "dataframe \<Rightarrow> LabTest list \<Rightarrow> LabTest list" where
  "process_table table lab_tests =
     (case normalize_table table of
        None \<Rightarrow> lab_tests
      | Some df \<Rightarrow>
          (case column_mapping df of
             None \<Rightarrow> lab_tests
           | Some cm \<Rightarrow> rows_loop (process_row cm (df_columns df)) (df_rows df) lab_tests))"

fun tables_loop :: "dataframe list \<Rightarrow> LabTest list \<Rightarrow> LabTest list" where
  "tables_loop [] lab_tests = lab_tests"
| "tables_loop (table # rest) lab_tests = tables_loop rest (process_table table lab_tests)"

record LabTestResponse =
  is_success :: bool
  data :: "LabTest list"

text \<open>
  What the steps outside the model did, in the order of the code: reading the upload
  into a temporary file (lines 57 to 62), \<^verbatim>\<open>cv2.imread\<close> (\<open>None\<close> when the file is not an
  image), preprocessing and table extraction (lines 72 to 112), and the removal of the
  temporary files (lines 221 and 222). \<open>Inl\<close> is an exception.
\<close>

type_synonym image = "nat list"

record collaborators =
  save_upload :: "py_exception + unit"
  imread :: "image option"
  extract_tables :: "py_exception + dataframe list"
  remove_files :: "py_exception + unit"

definition failure :: LabTestResponse where
  "failure = \<lparr>is_success = False, data = []\<rparr>"

definition get_lab_tests :: "collaborators \<Rightarrow> LabTestResponse" where
  "get_lab_tests env =
     (case save_upload env of
        Inl e \<Rightarrow> failure
      | Inr _ \<Rightarrow>
          (case imread env of
             None \<Rightarrow> failure
           | Some img \<Rightarrow>
               (case extract_tables env of
                  Inl e \<Rightarrow> failure
                | Inr tables \<Rightarrow>
                    (let lab_tests = tables_loop tables []
                     in case remove_files env of
                          Inl e \<Rightarrow> failure
                        | Inr _ \<Rightarrow> \<lparr>is_success = True, data = lab_tests\<rparr>))))"

section \<open>Example tables\<close>

definition example_raw :: dataframe where
  "example_raw =
     \<lparr>df_columns = [''0'', ''1'', ''2''],
      df_rows = [[Str ''Hb'', Str ''None'', Str ''12.5''],
                 [PyNone, Str [], NanCell],
                 [Str ''WBC'', PyNone, Str ''7'']]\<rparr>"

definition example_clean :: dataframe where
  "example_clean =
     \<lparr>df_columns = [''0'', ''2''],
      df_rows = [[Str ''Hb'', Str ''12.5''], [Str ''WBC'', Str ''7'']]\<rparr>"

text \<open>A table of values and ranges without a column of names.\<close>

definition example_shared :: dataframe where
  "example_shared =
     \<lparr>df_columns = [''0'', ''1''],
      df_rows = [[Str ''12.5'', Str ''13.0-17.0''],
                 [Str ''7'', Str ''4-5'']]\<rparr>"

text \<open>A table with two columns of names.\<close>

definition example_two_names :: dataframe where
  "example_two_names =
     \<lparr>df_columns = [''0'', ''1'', ''2''],
      df_rows = [[Str ''wbc'', Str ''hb'', Str ''12''],
                 [Str ''rbc'', Str ''platelet'', Str ''13'']]\<rparr>"

text \<open>A table whose second column holds value and unit together.\<close>

definition example_unit :: dataframe where
  "example_unit =
     \<lparr>df_columns = [''0'', ''1''],
      df_rows = [[Str ''Hb'', Str ''12.5 g/dL''],
                 [Str ''WBC'', Str ''7 /cumm'']]\<rparr>"

text \<open>A table with one row only.\<close>

definition example_one_row :: dataframe where
  "example_one_row =
     \<lparr>df_columns = [''0'', ''1''],
      df_rows = [[Str ''Hb'', Str ''12.5'']]\<rparr>"

text \<open>A table in which both columns hold names.\<close>

definition example_names_only :: dataframe where
  "example_names_only =
     \<lparr>df_columns = [''0'', ''1''],
      df_rows = [[Str ''wbc'', Str ''hb''],
                 [Str ''rbc'', Str ''platelet'']]\<rparr>"

text \<open>The records of \<open>example_unit\<close>.\<close>

definition example_unit_records :: "LabTest list" where
  "example_unit_records =
     [\<lparr>test_name = ''Hb'', test_value = ''12.5'', bio_reference_range = [],
       test_unit = ''g/dL'', lab_test_out_of_range = False\<rparr>,
      \<lparr>test_name = ''WBC'', test_value = ''7'', bio_reference_range = [],
       test_unit = ''/cumm'', lab_test_out_of_range = False\<rparr>]"

text \<open>A row with a result that is not a number, and its mapping.\<close>

definition example_map :: col_map where
  "example_map = [Test_Name \<mapsto> ''0'', Test_Value \<mapsto> ''1'', Bio_Reference_Range \<mapsto> ''2'']"

definition example_row :: "cell list" where
  "example_row = [Str ''Glucose'', Str ''Positive'', Str ''70-110'']"

text \<open>A row body that raises on the empty row.\<close>

definition example_body :: "cell list \<Rightarrow> py_exception + LabTest option" where
  "example_body row =
     (if row = [] then Inl RuntimeError else process_row example_map [''0'', ''1'', ''2''] row)"

text \<open>An upload that decodes as an image, after which table extraction raises.\<close>

definition example_extraction_fails :: collaborators where
  "example_extraction_fails =
     \<lparr>save_upload = Inr (), imread = Some [0, 0, 0], extract_tables = Inl RuntimeError,
      remove_files = Inr ()\<rparr>"

text \<open>An upload in which three of the tables above are found.\<close>

definition example_upload :: collaborators where
  "example_upload =
     \<lparr>save_upload = Inr (), imread = Some [0, 0, 0],
      extract_tables = Inr [example_one_row, example_unit, example_names_only],
      remove_files = Inr ()\<rparr>"

text \<open>The table of the end-to-end scenario of the specification, its cleaned form and
  the records expected from it.\<close>

definition example_report :: dataframe where
  "example_report =
     \<lparr>df_columns = [''Test'', ''Result'', ''Bio. Ref. Range'', ''Unit''],
      df_rows = [[Str ''Hemoglobin'', Str ''16.5'', Str ''13.0-17.0'', Str ''g/dL''],
                 [Str ''WBC Count'', Str ''11200'', Str ''4000-11000'', Str ''/cumm''],
                 [Str ''Glucose'', Str [], Str ''70-110'', Str ''mg/dL'']]\<rparr>"

definition example_report_clean :: dataframe where
  "example_report_clean =
     \<lparr>df_columns = [''Test'', ''Result'', ''Bio. Ref. Range'', ''Unit''],
      df_rows = [[Str ''Hemoglobin'', Str ''16.5'', Str ''13.0-17.0'', Str ''g/dL''],
                 [Str ''WBC Count'', Str ''11200'', Str ''4000-11000'', Str ''/cumm''],
                 [Str ''Glucose'', NanCell, Str ''70-110'', Str ''mg/dL'']]\<rparr>"

definition example_report_records :: "LabTest list" where
  "example_report_records =
     [\<lparr>test_name = ''Hemoglobin'', test_value = ''16.5'', bio_reference_range = ''13.0-17.0'',
       test_unit = ''g/dL'', lab_test_out_of_range = False\<rparr>,
      \<lparr>test_name = ''WBC Count'', test_value = ''11200'', bio_reference_range = ''4000-11000'',
       test_unit = ''/cumm'', lab_test_out_of_range = True\<rparr>]"

section \<open>Regular expressions: the matcher decides the language\<close>

lemma nullable_lang: "nullable r \<longleftrightarrow> [] \<in> lang r"
  by (induction r) (auto intro: star_nil)

lemma star_cons_split:
  "x \<in> star A \<Longrightarrow> x = c # w \<Longrightarrow> \<exists>u v. w = u @ v \<and> c # u \<in> A \<and> v \<in> star A"
proof (induction rule: star.induct)
  case star_nil
  then show ?case by simp
next
  case (star_step u v)
  show ?case
  proof (cases u)
    case Nil
    with star_step show ?thesis by simp
  next
    case (Cons a u')
    with star_step.prems have "a = c" "w = u' @ v" by simp_all
    with star_step.hyps Cons show ?thesis by blast
  qed
qed

lemma star_cons_iff:
  "c # w \<in> star A \<longleftrightarrow> (\<exists>u v. w = u @ v \<and> c # u \<in> A \<and> v \<in> star A)"
proof
  assume "c # w \<in> star A"
  then show "\<exists>u v. w = u @ v \<and> c # u \<in> A \<and> v \<in> star A"
    by (rule star_cons_split) simp
next
  assume "\<exists>u v. w = u @ v \<and> c # u \<in> A \<and> v \<in> star A"
  then obtain u v where "w = u @ v" "c # u \<in> A" "v \<in> star A" by blast
  then show "c # w \<in> star A" using star_step [of "c # u" A v] by simp
qed

lemma deriv_lang: "w \<in> lang (deriv c r) \<longleftrightarrow> c # w \<in> lang r"
proof (induction r arbitrary: w)
  case (RSeq r1 r2)
  show ?case
    by (auto simp: RSeq nullable_lang Cons_eq_append_conv)
next
  case (RStar r)
  show ?case
    by (auto simp: RStar star_cons_iff)
qed auto

lemma re_match_lang: "re_match r s \<longleftrightarrow> (\<exists>p. prefix p s \<and> p \<in> lang r)"
proof (induction s arbitrary: r)
  case Nil
  show ?case by (simp add: nullable_lang)
next
  case (Cons c cs)
  show ?case
    by (auto simp: Cons nullable_lang deriv_lang prefix_Cons)
qed

lemma re_match_dollar_lang:
  "re_match_dollar r s \<longleftrightarrow> (\<exists>p. p \<in> lang r \<and> (s = p \<or> s = p @ [CHR 0x0A]))"
proof (induction s arbitrary: r)
  case Nil
  show ?case by (auto simp: nullable_lang)
next
  case (Cons c cs)
  show ?case
    by (auto simp: Cons nullable_lang deriv_lang Cons_eq_append_conv)
qed

lemma star_class: "w \<in> star {[c] | c. c \<in> set cs} \<longleftrightarrow> set w \<subseteq> set cs"
proof (induction w)
  case Nil
  show ?case by (simp add: star_nil)
next
  case (Cons a w)
  show ?case by (auto simp: star_cons_iff Cons)
qed

lemma lang_star_class: "lang (RStar (RClass cs)) = {w. set w \<subseteq> set cs}"
  by (auto simp: star_class)

lemma lang_seq_iff: "p \<in> lang (RSeq r s) \<longleftrightarrow> (\<exists>u v. p = u @ v \<and> u \<in> lang r \<and> v \<in> lang s)"
  by auto

lemma lang_plus_class: "lang (RPlus (RClass cs)) = {w. w \<noteq> [] \<and> set w \<subseteq> set cs}"
proof -
  have "w \<in> lang (RPlus (RClass cs)) \<longleftrightarrow> w \<noteq> [] \<and> set w \<subseteq> set cs" for w
  proof (cases w)
    case Nil
    then show ?thesis by (simp add: RPlus_def)
  next
    case (Cons a l)
    have "a # l \<in> lang (RPlus (RClass cs)) \<longleftrightarrow> a \<in> set cs \<and> set l \<subseteq> set cs"
    proof
      assume "a # l \<in> lang (RPlus (RClass cs))"
      then obtain u v where "a # l = u @ v" "u \<in> lang (RClass cs)" "v \<in> lang (RStar (RClass cs))"
        unfolding RPlus_def lang_seq_iff by blast
      then show "a \<in> set cs \<and> set l \<subseteq> set cs"
        unfolding lang_star_class by auto
    next
      assume "a \<in> set cs \<and> set l \<subseteq> set cs"
      then have "[a] \<in> lang (RClass cs)" "l \<in> lang (RStar (RClass cs))"
        unfolding lang_star_class by auto
      then have "[a] @ l \<in> lang (RPlus (RClass cs))"
        unfolding RPlus_def lang_seq_iff by blast
      then show "a # l \<in> lang (RPlus (RClass cs))" by simp
    qed
    then show ?thesis using Cons by simp
  qed
  then show ?thesis by blast
qed

lemma space_not_digdot: "isspace c \<Longrightarrow> \<not> isdigdot c"
  by (auto simp: isspace_def isdigdot_def py_space_def digdot_def py_digits_def)

lemma hyphen_not_digdot: "\<not> isdigdot CHR ''-''"
  by (simp add: isdigdot_def digdot_def py_digits_def)

lemma hyphen_not_space: "\<not> isspace CHR ''-''"
  by (simp add: isspace_def py_space_def)

text \<open>The strings a match of \<open>RANGE_RE\<close> starts with.\<close>

lemma range_re_lang:
  "p \<in> lang RANGE_RE \<longleftrightarrow>
     (\<exists>g1 w1 w2 g2. p = g1 @ w1 @ ''-'' @ w2 @ g2 \<and> g1 \<noteq> [] \<and> g2 \<noteq> [] \<and>
        list_all isdigdot g1 \<and> list_all isdigdot g2 \<and> list_all isspace w1 \<and> list_all isspace w2)"
  (is "?L \<longleftrightarrow> ?R")
proof
  assume ?L
  then obtain g1 r1 where 1: "p = g1 @ r1" "g1 \<in> lang (RPlus (RClass digdot))"
    and r1: "r1 \<in> lang (RSeq (RStar (RClass py_space))
         (RSeq (RClass ''-'') (RSeq (RStar (RClass py_space)) (RPlus (RClass digdot)))))"
    unfolding RANGE_RE_def lang_seq_iff [of p] by blast
  from r1 obtain w1 r2 where 2: "r1 = w1 @ r2" "w1 \<in> lang (RStar (RClass py_space))"
    and r2: "r2 \<in> lang (RSeq (RClass ''-'') (RSeq (RStar (RClass py_space)) (RPlus (RClass digdot))))"
    unfolding lang_seq_iff [of r1] by blast
  from r2 obtain h r3 where 3: "r2 = h @ r3" "h \<in> lang (RClass ''-'')"
    and r3: "r3 \<in> lang (RSeq (RStar (RClass py_space)) (RPlus (RClass digdot)))"
    unfolding lang_seq_iff [of r2] by blast
  from r3 obtain w2 g2 where 4: "r3 = w2 @ g2" "w2 \<in> lang (RStar (RClass py_space))"
    "g2 \<in> lang (RPlus (RClass digdot))"
    unfolding lang_seq_iff [of r3] by blast
  from 3(2) have h: "h = ''-''" by simp
  have "p = g1 @ w1 @ ''-'' @ w2 @ g2" using 1(1) 2(1) 3(1) 4(1) h by simp
  moreover have "g1 \<noteq> []" "g2 \<noteq> []" "list_all isdigdot g1" "list_all isdigdot g2"
    using 1(2) 4(3) unfolding lang_plus_class by (auto simp: list_all_iff isdigdot_def)
  moreover have "list_all isspace w1" "list_all isspace w2"
    using 2(2) 4(2) unfolding lang_star_class by (auto simp: list_all_iff isspace_def)
  ultimately show ?R by blast
next
  assume ?R
  then obtain g1 w1 w2 g2 where p: "p = g1 @ w1 @ ''-'' @ w2 @ g2" and ne: "g1 \<noteq> []" "g2 \<noteq> []"
    and d: "list_all isdigdot g1" "list_all isdigdot g2" and w: "list_all isspace w1" "list_all isspace w2"
    by blast
  have g: "g1 \<in> lang (RPlus (RClass digdot))" "g2 \<in> lang (RPlus (RClass digdot))"
    using ne d unfolding lang_plus_class by (auto simp: list_all_iff isdigdot_def)
  have ws: "w1 \<in> lang (RStar (RClass py_space))" "w2 \<in> lang (RStar (RClass py_space))"
    using w unfolding lang_star_class by (auto simp: list_all_iff isspace_def)
  have h: "''-'' \<in> lang (RClass ''-'')" by simp
  have "w2 @ g2 \<in> lang (RSeq (RStar (RClass py_space)) (RPlus (RClass digdot)))"
    unfolding lang_seq_iff using ws(2) g(2) by blast
  then have "''-'' @ w2 @ g2 \<in> lang (RSeq (RClass ''-'') (RSeq (RStar (RClass py_space)) (RPlus (RClass digdot))))"
    unfolding lang_seq_iff [of "''-'' @ w2 @ g2"] using h by blast
  then have "w1 @ ''-'' @ w2 @ g2 \<in> lang (RSeq (RStar (RClass py_space))
         (RSeq (RClass ''-'') (RSeq (RStar (RClass py_space)) (RPlus (RClass digdot)))))"
    unfolding lang_seq_iff [of "w1 @ ''-'' @ w2 @ g2"] using ws(1) by blast
  then show ?L
    unfolding RANGE_RE_def p lang_seq_iff [of "g1 @ w1 @ ''-'' @ w2 @ g2"] using g(1) by blast
qed

lemma scan_groups:
  assumes "s = g1 @ w1 @ ''-'' @ w2 @ g2 @ t" and "g2 \<noteq> []"
    and "list_all isdigdot g1" and "list_all isdigdot g2"
    and "list_all isspace w1" and "list_all isspace w2"
  shows "group1 s = g1" and "group2 s = g2 @ takeWhile isdigdot t"
proof -
  have w1: "\<And>x. x \<in> set w1 \<Longrightarrow> \<not> isdigdot x"
    using assms(5) space_not_digdot by (auto simp: list_all_iff)
  have g1: "\<And>x. x \<in> set g1 \<Longrightarrow> isdigdot x" and g2: "\<And>x. x \<in> set g2 \<Longrightarrow> isdigdot x"
    and s1: "\<And>x. x \<in> set w1 \<Longrightarrow> isspace x" and s2: "\<And>x. x \<in> set w2 \<Longrightarrow> isspace x"
    using assms(3-6) by (auto simp: list_all_iff)
  let ?R = "w1 @ ''-'' @ w2 @ g2 @ t"
  have rest: "takeWhile isdigdot ?R = []"
    by (cases w1) (use w1 hyphen_not_digdot in auto)
  have s: "s = g1 @ ?R" by (simp add: assms(1))
  show "group1 s = g1"
    unfolding group1_def s using g1 rest by (simp only: takeWhile_append2 append_Nil2)
  have "dropWhile isdigdot ?R = ?R"
    using takeWhile_dropWhile_id [of isdigdot ?R] rest by (simp only: append_Nil)
  then have d1: "dropWhile isdigdot s = ?R"
    unfolding s using g1 by (simp only: dropWhile_append2)
  have d2: "dropWhile isspace ?R = ''-'' @ w2 @ g2 @ t"
    using s1 hyphen_not_space by (simp add: dropWhile_append2)
  obtain b g2' where b: "g2 = b # g2'" using assms(2) by (cases g2) auto
  then have "\<not> isspace b" using g2 space_not_digdot by auto
  then have d3: "dropWhile isspace (w2 @ g2 @ t) = g2 @ t"
    using s2 b by (simp add: dropWhile_append2)
  show "group2 s = g2 @ takeWhile isdigdot t"
    unfolding group2_def d1 d2 using d3 g2 by (simp add: takeWhile_append2)
qed

section \<open>Evaluating \<^verbatim>\<open>float\<close>\<close>

lemma bitlen_values:
  "bitlen 4 = 3" "bitlen 10 = 4" "bitlen 11 = 4" "bitlen 20 = 5" "bitlen 70 = 7" "bitlen 90 = 7"
  "bitlen 110 = 7" "bitlen 120 = 7"
  by (code_simp, code_simp, code_simp, code_simp, code_simp, code_simp, code_simp, code_simp)

lemma floor_rat_numeral: "\<lfloor>numeral a / numeral b :: rat\<rfloor> = numeral a div numeral b"
  by (metis floor_divide_of_int_eq of_int_numeral)

lemma round_half_even_of_int: "round_half_even (of_int n) = n"
  by (simp add: round_half_even_def)

lemma pow2_pos: "0 < pow2 k"
  by (simp add: pow2_def)

lemma binary64_exact:
  assumes "0 < a" and "max (floor_log2 a) (- 1022) = e"
    and "a = of_int n * pow2 (e - 52)" and "a < pow2 1024"
  shows "binary64 a = Finite a"
proof -
  have "a / pow2 (e - 52) = of_int n"
    using assms(3) pow2_pos [of "e - 52"] by simp
  then have "of_int (round_half_even (a / pow2 (e - 52))) * pow2 (e - 52) = a"
    using assms(3) by (simp only: round_half_even_of_int)
  then show ?thesis
    using assms(1,2,4) unfolding binary64_def by (simp add: Let_def)
qed

lemma binary64_values:
  "binary64 4 = Finite 4" "binary64 (9 / 2) = Finite (9 / 2)" "binary64 10 = Finite 10"
  "binary64 11 = Finite 11" "binary64 20 = Finite 20" "binary64 70 = Finite 70"
  "binary64 90 = Finite 90" "binary64 110 = Finite 110" "binary64 120 = Finite 120"
  by (rule binary64_exact [where e = 2 and n = "4 * 2 ^ 50"],
      simp_all add: floor_log2_def floor_rat_numeral bitlen_values pow2_def,
      rule binary64_exact [where e = 2 and n = "9 * 2 ^ 49"],
      simp_all add: floor_log2_def floor_rat_numeral bitlen_values pow2_def,
      rule binary64_exact [where e = 3 and n = "10 * 2 ^ 49"],
      simp_all add: floor_log2_def floor_rat_numeral bitlen_values pow2_def,
      rule binary64_exact [where e = 3 and n = "11 * 2 ^ 49"],
      simp_all add: floor_log2_def floor_rat_numeral bitlen_values pow2_def,
      rule binary64_exact [where e = 4 and n = "20 * 2 ^ 48"],
      simp_all add: floor_log2_def floor_rat_numeral bitlen_values pow2_def,
      rule binary64_exact [where e = 6 and n = "70 * 2 ^ 46"],
      simp_all add: floor_log2_def floor_rat_numeral bitlen_values pow2_def,
      rule binary64_exact [where e = 6 and n = "90 * 2 ^ 46"],
      simp_all add: floor_log2_def floor_rat_numeral bitlen_values pow2_def,
      rule binary64_exact [where e = 6 and n = "110 * 2 ^ 46"],
      simp_all add: floor_log2_def floor_rat_numeral bitlen_values pow2_def,
      rule binary64_exact [where e = 6 and n = "120 * 2 ^ 46"],
      simp_all add: floor_log2_def floor_rat_numeral bitlen_values pow2_def)

lemmas float_eval = py_float_def c_strip_def c_space_def isdigit_def py_digits_def split_sign_def
  py_lower_def lower_char_def ascii_upper_def ascii_lower_def parse_number_def parse_exponent_def
  digits_val_def digit_of_def pow10_def

lemma py_float_values:
  "py_float ''4'' = Some (Finite 4)" "py_float ''4.5'' = Some (Finite (9 / 2))"
  "py_float ''10'' = Some (Finite 10)" "py_float ''11.0'' = Some (Finite 11)"
  "py_float ''20'' = Some (Finite 20)" "py_float ''70'' = Some (Finite 70)"
  "py_float ''90'' = Some (Finite 90)" "py_float ''110'' = Some (Finite 110)"
  "py_float ''120'' = Some (Finite 120)"
  by (simp_all add: float_eval binary64_values)

lemma py_float_invalid:
  "py_float ''1.2.3'' = None" "py_float ''Positive'' = None"
  by (simp_all add: float_eval)

lemmas re_eval = RANGE_RE_def RPlus_def ROpt_def digdot_def py_digits_def py_space_def

lemmas group_eval = group1_def group2_def isdigdot_def isspace_def digdot_def py_digits_def py_space_def

lemma parse_examples:
  "parse_reference_range ''70 - 110'' = Inr (Some (Finite 70), Some (Finite 110))"
  "parse_reference_range ''70-110'' = Inr (Some (Finite 70), Some (Finite 110))"
  "parse_reference_range ''4.5-11.0 x10^9/L'' = Inr (Some (Finite (9 / 2)), Some (Finite 11))"
  "parse_reference_range ''Negative'' = Inr (None, None)"
  "parse_reference_range ''<5'' = Inr (None, None)"
  "parse_reference_range ''110-70'' = Inr (Some (Finite 110), Some (Finite 70))"
  "parse_reference_range ''1.2.3-4'' = Inl ValueError"
  by (simp_all add: parse_reference_range_def re_eval group_eval py_float_values py_float_invalid)

section \<open>The range parser and the out-of-range test\<close>

lemma range_match_groups:
  assumes "re_match RANGE_RE s"
  shows "\<exists>w1 w2 t. s = group1 s @ w1 @ ''-'' @ w2 @ group2 s @ t \<and>
           group1 s \<noteq> [] \<and> group2 s \<noteq> [] \<and>
           list_all isdigdot (group1 s) \<and> list_all isdigdot (group2 s) \<and>
           list_all isspace w1 \<and> list_all isspace w2 \<and> (t = [] \<or> \<not> isdigdot (hd t))"
proof -
  from assms obtain p where "prefix p s" and p: "p \<in> lang RANGE_RE"
    unfolding re_match_lang by blast
  then obtain t0 where s: "s = p @ t0" by (auto simp: prefix_def)
  from p obtain g1 w1 w2 g2 where shape: "p = g1 @ w1 @ ''-'' @ w2 @ g2" "g1 \<noteq> []" "g2 \<noteq> []"
    "list_all isdigdot g1" "list_all isdigdot g2" "list_all isspace w1" "list_all isspace w2"
    unfolding range_re_lang by blast
  have s': "s = g1 @ w1 @ ''-'' @ w2 @ g2 @ t0" using s shape(1) by simp
  have 1: "group1 s = g1" and 2: "group2 s = g2 @ takeWhile isdigdot t0"
    using scan_groups [OF s' shape(3,4,5,6,7)] by simp_all
  let ?t = "dropWhile isdigdot t0"
  have "s = group1 s @ w1 @ ''-'' @ w2 @ group2 s @ ?t"
    unfolding 1 2 using s' by simp
  moreover have "group1 s \<noteq> []" "group2 s \<noteq> []" "list_all isdigdot (group1 s)"
    using shape(2,3,4) 1 2 by simp_all
  moreover have "list_all isdigdot (group2 s)"
    unfolding 2 using shape(5) by (auto simp: list_all_iff dest: set_takeWhileD)
  moreover have "?t = [] \<or> \<not> isdigdot (hd ?t)"
    using hd_dropWhile [of isdigdot t0] by blast
  ultimately show ?thesis
    using shape(6,7) by blast
qed

lemma range_match_shape:
  assumes "g1 \<noteq> []" "g2 \<noteq> []" "list_all isdigdot g1" "list_all isdigdot g2"
    "list_all isspace w1" "list_all isspace w2"
  shows "re_match RANGE_RE (g1 @ w1 @ ''-'' @ w2 @ g2 @ t)"
proof -
  have "g1 @ w1 @ ''-'' @ w2 @ g2 \<in> lang RANGE_RE"
    unfolding range_re_lang using assms by blast
  moreover have "prefix (g1 @ w1 @ ''-'' @ w2 @ g2) (g1 @ w1 @ ''-'' @ w2 @ g2 @ t)"
    by (simp add: prefix_def)
  ultimately show ?thesis unfolding re_match_lang by blast
qed

lemma parse_cases:
  "(\<exists>lo hi. parse_reference_range s = Inr (Some lo, Some hi)) \<or>
   parse_reference_range s = Inr (None, None) \<or> parse_reference_range s = Inl ValueError"
  by (simp add: parse_reference_range_def split: option.splits)

lemma is_out_examples:
  "is_out_of_range ''120'' ''70-110'' = Some True"
  "is_out_of_range ''90'' ''70-110'' = Some False"
  "is_out_of_range ''Positive'' ''70-110'' = None"
  by (simp_all add: is_out_of_range_def parse_examples py_float_values py_float_invalid)

text \<open>
  Claim C2. \<open>is_out_of_range\<close> returns \<open>None\<close> (indeterminate) when the range parser
  raises or finds no range, and when \<^verbatim>\<open>float\<close> rejects the value string; in the one case
  that remains, a parsed pair \<open>(lo, hi)\<close> and a value \<open>x\<close>, it returns whether
  \<open>x < lo\<close> or \<open>x > hi\<close>. The value 120 is outside 70-110 and 90 is inside.
\<close>

theorem is_out_of_range_spec:
  "(parse_reference_range r = Inl e \<longrightarrow> is_out_of_range v r = None) \<and>
   (parse_reference_range r = Inr (None, None) \<longrightarrow> is_out_of_range v r = None) \<and>
   (py_float v = None \<longrightarrow> is_out_of_range v r = None) \<and>
   (parse_reference_range r = Inr (Some lo, Some hi) \<and> py_float v = Some x \<longrightarrow>
      is_out_of_range v r = Some (flt_less x lo \<or> flt_less hi x)) \<and>
   ((\<exists>lo hi. parse_reference_range r = Inr (Some lo, Some hi)) \<or>
      parse_reference_range r = Inr (None, None) \<or> parse_reference_range r = Inl ValueError) \<and>
   is_out_of_range ''120'' ''70-110'' = Some True \<and>
   is_out_of_range ''90'' ''70-110'' = Some False"
proof -
  have "py_float v = None \<longrightarrow> is_out_of_range v r = None"
    by (simp add: is_out_of_range_def split: sum.splits prod.splits)
  moreover have "parse_reference_range r = Inl e \<longrightarrow> is_out_of_range v r = None"
    "parse_reference_range r = Inr (None, None) \<longrightarrow> is_out_of_range v r = None"
    "parse_reference_range r = Inr (Some lo, Some hi) \<and> py_float v = Some x \<longrightarrow>
      is_out_of_range v r = Some (flt_less x lo \<or> flt_less hi x)"
    by (simp_all add: is_out_of_range_def split: option.splits)
  ultimately show ?thesis
    using parse_cases [of r] is_out_examples(1,2) by blast
qed

theorem is_out_of_range_spec_witness:
  "parse_reference_range ''70 - 110'' = Inr (Some (Finite 70), Some (Finite 110)) \<and>
   py_float ''4.5'' = Some (Finite (9 / 2)) \<and>
   is_out_of_range ''4.5'' ''70 - 110'' = Some True \<and>
   parse_reference_range ''<5'' = Inr (None, None) \<and>
   is_out_of_range ''4.5'' ''<5'' = None \<and>
   py_float ''Positive'' = None \<and>
   is_out_of_range ''Positive'' ''70 - 110'' = None \<and>
   parse_reference_range ''1.2.3-4'' = Inl ValueError \<and>
   is_out_of_range ''4.5'' ''1.2.3-4'' = None"
  using is_out_of_range_spec [of "''70 - 110''" ValueError "''4.5''" "Finite 70" "Finite 110" "Finite (9 / 2)"]
    is_out_of_range_spec [of "''<5''" ValueError "''4.5''" "Finite 70" "Finite 110" "Finite (9 / 2)"]
    is_out_of_range_spec [of "''70 - 110''" ValueError "''Positive''" "Finite 70" "Finite 110" "Finite (9 / 2)"]
    is_out_of_range_spec [of "''1.2.3-4''" ValueError "''4.5''" "Finite 70" "Finite 110" "Finite (9 / 2)"]
  by (simp add: parse_examples py_float_values py_float_invalid)

text \<open>
  Claim C3. The parser matches number, hyphen, number at the start of the string: on
  \<open>g1 @ w1 @ ''-'' @ w2 @ g2 @ t\<close>, with \<open>g1\<close> and \<open>g2\<close> runs of digits and points that
  \<^verbatim>\<open>float\<close> accepts, \<open>w1\<close> and \<open>w2\<close> whitespace and \<open>t\<close> any text that does not go on with a
  digit or a point, it returns the floats of \<open>g1\<close> and \<open>g2\<close>; a pair is returned for strings
  of that form only, and it holds the floats of the two groups. The four examples of the
  specification follow.
\<close>

theorem parse_reference_range_prefix:
  "(g1 \<noteq> [] \<and> g2 \<noteq> [] \<and> list_all isdigdot g1 \<and> list_all isdigdot g2 \<and>
    list_all isspace w1 \<and> list_all isspace w2 \<and> (t = [] \<or> \<not> isdigdot (hd t)) \<and>
    py_float g1 = Some lo \<and> py_float g2 = Some hi \<longrightarrow>
      parse_reference_range (g1 @ w1 @ ''-'' @ w2 @ g2 @ t) = Inr (Some lo, Some hi)) \<and>
   (parse_reference_range s = Inr (Some lo', Some hi') \<longrightarrow>
      (\<exists>w1 w2 t. s = group1 s @ w1 @ ''-'' @ w2 @ group2 s @ t \<and>
         list_all isspace w1 \<and> list_all isspace w2 \<and>
         group1 s \<noteq> [] \<and> list_all isdigdot (group1 s) \<and>
         group2 s \<noteq> [] \<and> list_all isdigdot (group2 s) \<and>
         py_float (group1 s) = Some lo' \<and> py_float (group2 s) = Some hi')) \<and>
   parse_reference_range ''70 - 110'' = Inr (Some (Finite 70), Some (Finite 110)) \<and>
   parse_reference_range ''4.5-11.0 x10^9/L'' = Inr (Some (Finite (9 / 2)), Some (Finite 11)) \<and>
   parse_reference_range ''Negative'' = Inr (None, None) \<and>
   parse_reference_range ''<5'' = Inr (None, None)"
proof -
  have a: "parse_reference_range (g1 @ w1 @ ''-'' @ w2 @ g2 @ t) = Inr (Some lo, Some hi)"
    if h: "g1 \<noteq> []" "g2 \<noteq> []" "list_all isdigdot g1" "list_all isdigdot g2"
      "list_all isspace w1" "list_all isspace w2" "t = [] \<or> \<not> isdigdot (hd t)"
      "py_float g1 = Some lo" "py_float g2 = Some hi"
  proof -
    let ?s = "g1 @ w1 @ ''-'' @ w2 @ g2 @ t"
    have m: "re_match RANGE_RE ?s" using h(1-6) by (rule range_match_shape)
    have "takeWhile isdigdot t = []" using h(7) by (cases t) auto
    then have "group1 ?s = g1" "group2 ?s = g2"
      using scan_groups [OF refl h(2,3,4,5,6), of t] by simp_all
    then show ?thesis using m h(8,9) by (simp add: parse_reference_range_def)
  qed
  have b: "\<exists>w1 w2 t. s = group1 s @ w1 @ ''-'' @ w2 @ group2 s @ t \<and>
         list_all isspace w1 \<and> list_all isspace w2 \<and>
         group1 s \<noteq> [] \<and> list_all isdigdot (group1 s) \<and>
         group2 s \<noteq> [] \<and> list_all isdigdot (group2 s) \<and>
         py_float (group1 s) = Some lo' \<and> py_float (group2 s) = Some hi'"
    if p: "parse_reference_range s = Inr (Some lo', Some hi')"
  proof -
    from p have m: "re_match RANGE_RE s" and f: "py_float (group1 s) = Some lo'" "py_float (group2 s) = Some hi'"
      by (auto simp: parse_reference_range_def split: if_splits option.splits)
    from range_match_groups [OF m] f show ?thesis by blast
  qed
  from a b show ?thesis using parse_examples(1,3,4,5) by blast
qed

theorem parse_reference_range_prefix_witness:
  "py_float ''10'' = Some (Finite 10) \<and> py_float ''20'' = Some (Finite 20) \<and>
   parse_reference_range ''10 -20 mg/dL'' = Inr (Some (Finite 10), Some (Finite 20)) \<and>
   group1 ''70 - 110'' = ''70'' \<and> group2 ''70 - 110'' = ''110''"
  using parse_reference_range_prefix [of "''10''" "''20''" "'' ''" "[]" "'' mg/dL''" "Finite 10" "Finite 20"
      "''70 - 110''" "Finite 70" "Finite 110"]
  by (simp add: py_float_values parse_examples group_eval)

text \<open>
  Claim C4, as stated, fails: the pattern accepts \<^verbatim>\<open>1.2.3\<close> as a number, \<^verbatim>\<open>float\<close> does
  not, and \<open>parse_reference_range\<close> has no handler.
\<close>

theorem range_parser_raises_on_malformed_number:
  "parse_reference_range ''1.2.3-4'' = Inl ValueError"
  by (rule parse_examples(7))

text \<open>
  Claim C4, amended. The parser raises \<^verbatim>\<open>ValueError\<close> exactly when the pattern matches
  and \<^verbatim>\<open>float\<close> rejects one of the two groups; it returns the pair \<^verbatim>\<open>(None, None)\<close>
  exactly when the pattern does not match; when the pattern matches and both groups are
  floats it returns them, in the order of the text (110-70 gives low 110 and high 70).
  \<open>is_out_of_range\<close> catches the exception and returns \<open>None\<close>.
\<close>

theorem range_parser_outcomes:
  "(parse_reference_range s = Inl ValueError \<longleftrightarrow>
      re_match RANGE_RE s \<and> (py_float (group1 s) = None \<or> py_float (group2 s) = None)) \<and>
   (parse_reference_range s = Inr (None, None) \<longleftrightarrow> \<not> re_match RANGE_RE s) \<and>
   (re_match RANGE_RE s \<and> py_float (group1 s) = Some lo \<and> py_float (group2 s) = Some hi \<longrightarrow>
      parse_reference_range s = Inr (Some lo, Some hi)) \<and>
   (parse_reference_range s = Inl ValueError \<longrightarrow> is_out_of_range v s = None) \<and>
   parse_reference_range ''110-70'' = Inr (Some (Finite 110), Some (Finite 70))"
proof -
  have "parse_reference_range s = Inl ValueError \<longleftrightarrow>
      re_match RANGE_RE s \<and> (py_float (group1 s) = None \<or> py_float (group2 s) = None)"
    by (auto simp: parse_reference_range_def split: option.splits)
  moreover have "parse_reference_range s = Inr (None, None) \<longleftrightarrow> \<not> re_match RANGE_RE s"
    by (auto simp: parse_reference_range_def split: option.splits)
  moreover have "re_match RANGE_RE s \<and> py_float (group1 s) = Some lo \<and> py_float (group2 s) = Some hi \<longrightarrow>
      parse_reference_range s = Inr (Some lo, Some hi)"
    by (simp add: parse_reference_range_def)
  moreover have "parse_reference_range s = Inl ValueError \<longrightarrow> is_out_of_range v s = None"
    by (simp add: is_out_of_range_def)
  ultimately show ?thesis
    using parse_examples(6) by blast
qed

theorem range_parser_outcomes_witness:
  "re_match RANGE_RE ''1.2.3-4'' \<and> py_float (group1 ''1.2.3-4'') = None \<and>
   parse_reference_range ''1.2.3-4'' = Inl ValueError \<and> is_out_of_range ''5'' ''1.2.3-4'' = None \<and>
   re_match RANGE_RE ''70-110'' \<and> parse_reference_range ''70-110'' = Inr (Some (Finite 70), Some (Finite 110))"
  using range_parser_outcomes [of "''1.2.3-4''" "Finite 70" "Finite 110" "''5''"]
    range_parser_outcomes [of "''70-110''" "Finite 70" "Finite 110" "''5''"]
  by (simp add: re_eval group_eval py_float_values py_float_invalid)

section \<open>Properties of the table normalizer\<close>

lemma rectangular_df_replace: "rectangular (df_replace old df) = rectangular df"
  by (simp add: rectangular_def df_replace_def list_all_iff)

lemma rectangular_dropna_rows: "rectangular df \<Longrightarrow> rectangular (dropna_rows df)"
  by (simp add: rectangular_def dropna_rows_def list_all_iff)

lemma rectangular_dropna_columns: "rectangular (dropna_columns df)"
  by (simp add: rectangular_def dropna_columns_def list_all_iff)

lemma kept_columns_less: "j \<in> set (kept_columns df) \<Longrightarrow> j < length (df_columns df)"
  by (simp add: kept_columns_def)

lemma kept_columns_value:
  "j \<in> set (kept_columns df) \<Longrightarrow> \<not> list_all isna (column_cells df j)"
  by (simp add: kept_columns_def)

lemma column_cells_dropna_columns:
  "j < length (kept_columns df) \<Longrightarrow>
   column_cells (dropna_columns df) j = column_cells df (kept_columns df ! j)"
  by (simp add: column_cells_def dropna_columns_def)

lemma dropna_columns_no_empty_column:
  assumes "j < length (df_columns (dropna_columns df))"
  shows "\<not> list_all isna (column_cells (dropna_columns df) j)"
proof -
  from assms have j: "j < length (kept_columns df)" by (simp add: dropna_columns_def)
  then have "kept_columns df ! j \<in> set (kept_columns df)" by simp
  then show ?thesis
    using kept_columns_value column_cells_dropna_columns [OF j] by simp
qed

lemma dropna_columns_keeps_values:
  assumes "rectangular df" and "r \<in> set (df_rows df)" and "\<not> list_all isna r"
  shows "\<not> list_all isna (map (\<lambda>j. r ! j) (kept_columns df))"
proof -
  from assms(3) obtain i where i: "i < length r" "\<not> isna (r ! i)"
    by (auto simp: list_all_length)
  have n: "length r = length (df_columns df)"
    using assms(1,2) by (simp add: rectangular_def list_all_iff)
  have "r ! i \<in> set (column_cells df i)"
    using assms(2) by (auto simp: column_cells_def)
  then have "\<not> list_all isna (column_cells df i)"
    using i(2) by (auto simp: list_all_iff)
  then have "i \<in> set (kept_columns df)"
    using i(1) n by (simp add: kept_columns_def)
  then have "r ! i \<in> set (map (\<lambda>j. r ! j) (kept_columns df))" by simp
  then show ?thesis using i(2) unfolding list_all_iff by blast
qed

lemma dropna_rows_no_empty_row: "r \<in> set (df_rows (dropna_rows df)) \<Longrightarrow> \<not> list_all isna r"
  by (simp add: dropna_rows_def)

lemma clean_table_no_empty_row:
  assumes "rectangular df" and "r \<in> set (df_rows (clean_table df))"
  shows "\<not> list_all isna r"
proof -
  let ?p = "dropna_rows (df_replace [] (df_replace ''None'' df))"
  have rect: "rectangular ?p"
    using assms(1) by (simp add: rectangular_dropna_rows rectangular_df_replace)
  from assms(2) obtain r0 where r0: "r0 \<in> set (df_rows ?p)" "r = map (\<lambda>j. r0 ! j) (kept_columns ?p)"
    by (auto simp: clean_table_def dropna_columns_def)
  from r0(1) have "\<not> list_all isna r0" by (rule dropna_rows_no_empty_row)
  with rect r0 show ?thesis by (simp add: dropna_columns_keeps_values)
qed

lemma clean_table_no_empty_column:
  "j < length (df_columns (clean_table df)) \<Longrightarrow> \<not> list_all isna (column_cells (clean_table df) j)"
  unfolding clean_table_def by (rule dropna_columns_no_empty_column)

lemma clean_table_rows_le: "length (df_rows (clean_table df)) \<le> length (df_rows df)"
  by (simp add: clean_table_def dropna_columns_def dropna_rows_def df_replace_def
      order_trans [OF length_filter_le])

lemma clean_table_columns_le: "length (df_columns (clean_table df)) \<le> length (df_columns df)"
proof -
  have "length (kept_columns d) \<le> length (df_columns d)" for d
    unfolding kept_columns_def using length_filter_le [of _ "[0..<length (df_columns d)]"] by simp
  from this [of "dropna_rows (df_replace [] (df_replace ''None'' df))"]
  show ?thesis by (simp add: clean_table_def dropna_columns_def dropna_rows_def df_replace_def)
qed

lemma replace_twice:
  "df_rows (df_replace [] (df_replace ''None'' df)) = map (map spec_blank) (df_rows df)"
  by (auto simp: df_replace_def spec_blank_def)

lemma clean_table_explicit:
  "df_rows (clean_table df) =
     map (\<lambda>r. map (\<lambda>j. r ! j)
           (filter (\<lambda>j. list_ex (\<lambda>r. \<not> isna (r ! j))
                     (filter (\<lambda>r. \<not> list_all isna r) (map (map spec_blank) (df_rows df))))
              [0..<length (df_columns df)]))
        (filter (\<lambda>r. \<not> list_all isna r) (map (map spec_blank) (df_rows df)))"
  "df_columns (clean_table df) =
     map (\<lambda>j. df_columns df ! j)
       (filter (\<lambda>j. list_ex (\<lambda>r. \<not> isna (r ! j))
                 (filter (\<lambda>r. \<not> list_all isna r) (map (map spec_blank) (df_rows df))))
          [0..<length (df_columns df)])"
proof -
  let ?p = "dropna_rows (df_replace [] (df_replace ''None'' df))"
  have rows: "df_rows ?p = filter (\<lambda>r. \<not> list_all isna r) (map (map spec_blank) (df_rows df))"
    by (simp add: dropna_rows_def replace_twice)
  have cols: "df_columns ?p = df_columns df"
    by (simp add: dropna_rows_def df_replace_def)
  have keep: "kept_columns ?p =
      filter (\<lambda>j. list_ex (\<lambda>r. \<not> isna (r ! j)) (df_rows ?p)) [0..<length (df_columns df)]"
    unfolding kept_columns_def column_cells_def cols
    by (simp add: list_all_iff list_ex_iff)
  show "df_rows (clean_table df) =
     map (\<lambda>r. map (\<lambda>j. r ! j)
           (filter (\<lambda>j. list_ex (\<lambda>r. \<not> isna (r ! j))
                     (filter (\<lambda>r. \<not> list_all isna r) (map (map spec_blank) (df_rows df))))
              [0..<length (df_columns df)]))
        (filter (\<lambda>r. \<not> list_all isna r) (map (map spec_blank) (df_rows df)))"
    unfolding clean_table_def dropna_columns_def keep rows by simp
  show "df_columns (clean_table df) =
     map (\<lambda>j. df_columns df ! j)
       (filter (\<lambda>j. list_ex (\<lambda>r. \<not> isna (r ! j))
                 (filter (\<lambda>r. \<not> list_all isna r) (map (map spec_blank) (df_rows df))))
          [0..<length (df_columns df)])"
    unfolding clean_table_def dropna_columns_def keep rows cols by simp
qed

lemma normalize_None: "normalize_table df = None \<longleftrightarrow>
    length (df_rows (clean_table df)) < 2 \<or> length (df_columns (clean_table df)) < 2"
  by (simp add: normalize_table_def too_small_def shape_def)

text \<open>
  Claim C5. On a rectangular table the four cleaning calls of the code do what the
  specification lists: every cell equal to \<^verbatim>\<open>"None"\<close> or \<^verbatim>\<open>""\<close> becomes missing
  (\<open>rows1\<close>), the rows without a value are dropped (\<open>rows2\<close>), then the columns without a
  value in the rows that remain (\<open>keep\<close> holds the positions that stay); the table is
  rejected exactly when fewer than 2 rows or fewer than 2 columns remain, and is
  returned otherwise. Neither count grows, and no row and no column of the result is
  without a value.
\<close>

theorem table_normalizer_steps:
  assumes "rectangular df"
  shows
    "(let rows1 = map (map spec_blank) (df_rows df);
          rows2 = filter (\<lambda>r. \<not> list_all isna r) rows1;
          keep = filter (\<lambda>j. list_ex (\<lambda>r. \<not> isna (r ! j)) rows2) [0..<length (df_columns df)];
          t = clean_table df
      in df_rows t = map (\<lambda>r. map (\<lambda>j. r ! j) keep) rows2 \<and>
         df_columns t = map (\<lambda>j. df_columns df ! j) keep \<and>
         (normalize_table df = None \<longleftrightarrow> length (df_rows t) < 2 \<or> length (df_columns t) < 2) \<and>
         (normalize_table df = None \<or> normalize_table df = Some t) \<and>
         length (df_rows t) \<le> length (df_rows df) \<and>
         length (df_columns t) \<le> length (df_columns df) \<and>
         list_all (\<lambda>r. \<not> list_all isna r) (df_rows t) \<and>
         list_all (\<lambda>j. \<not> list_all isna (column_cells t j)) [0..<length (df_columns t)])"
proof -
  have "list_all (\<lambda>r. \<not> list_all isna r) (df_rows (clean_table df))"
    unfolding list_all_iff [of _ "df_rows (clean_table df)"]
    using clean_table_no_empty_row [OF assms] by blast
  moreover have "list_all (\<lambda>j. \<not> list_all isna (column_cells (clean_table df) j))
      [0..<length (df_columns (clean_table df))]"
    unfolding list_all_iff [of _ "[0..<length (df_columns (clean_table df))]"]
    using clean_table_no_empty_column by simp
  moreover have "normalize_table df = None \<or> normalize_table df = Some (clean_table df)"
    by (simp add: normalize_table_def)
  ultimately show ?thesis
    unfolding Let_def
    using clean_table_explicit [of df] normalize_None [of df]
      clean_table_rows_le [of df] clean_table_columns_le [of df]
    by blast
qed

lemma clean_table_cells:
  assumes "rectangular df" and "r \<in> set (df_rows (clean_table df))" and "c \<in> set r"
  shows "c \<noteq> Str ''None'' \<and> c \<noteq> Str []"
proof -
  let ?p = "dropna_rows (df_replace [] (df_replace ''None'' df))"
  have rect: "rectangular ?p"
    using assms(1) by (simp add: rectangular_dropna_rows rectangular_df_replace)
  from assms(2) obtain r0 where r0: "r0 \<in> set (df_rows ?p)" "r = map (\<lambda>j. r0 ! j) (kept_columns ?p)"
    by (auto simp: clean_table_def dropna_columns_def)
  from assms(3) r0(2) obtain j where j: "j \<in> set (kept_columns ?p)" "c = r0 ! j" by auto
  have "length r0 = length (df_columns ?p)"
    using rect r0(1) by (simp add: rectangular_def list_all_iff)
  with j kept_columns_less [OF j(1)] have "c \<in> set r0" by simp
  moreover from r0(1) obtain r1 where "r1 \<in> set (df_rows df)" "r0 = map spec_blank r1"
    by (auto simp: dropna_rows_def replace_twice)
  ultimately obtain c0 where "c = spec_blank c0" by auto
  then show ?thesis by (simp add: spec_blank_def)
qed

lemma df_replace_absent:
  assumes "\<And>r c. r \<in> set (df_rows df) \<Longrightarrow> c \<in> set r \<Longrightarrow> c \<noteq> Str old"
  shows "df_replace old df = df"
proof -
  have "map (map (\<lambda>c. if c = Str old then NanCell else c)) (df_rows df) = df_rows df"
    using assms by (intro map_idI) (simp add: map_idI)
  then show ?thesis by (simp add: df_replace_def)
qed

lemma dropna_rows_id:
  assumes "\<And>r. r \<in> set (df_rows df) \<Longrightarrow> \<not> list_all isna r"
  shows "dropna_rows df = df"
  using assms by (simp add: dropna_rows_def)

lemma dropna_columns_id:
  assumes "rectangular df"
    and "\<And>j. j < length (df_columns df) \<Longrightarrow> \<not> list_all isna (column_cells df j)"
  shows "dropna_columns df = df"
proof -
  have keep: "kept_columns df = [0..<length (df_columns df)]"
    unfolding kept_columns_def using assms(2) by simp
  have "map (\<lambda>r. map (\<lambda>j. r ! j) [0..<length (df_columns df)]) (df_rows df) = df_rows df"
  proof (intro map_idI)
    fix r assume "r \<in> set (df_rows df)"
    then have "length r = length (df_columns df)"
      using assms(1) by (simp add: rectangular_def list_all_iff)
    then show "map (\<lambda>j. r ! j) [0..<length (df_columns df)] = r"
      using map_nth [of r] by simp
  qed
  then show ?thesis
    unfolding dropna_columns_def keep by (simp add: map_nth)
qed

lemma clean_table_fixed:
  assumes "rectangular df"
  shows "clean_table (clean_table df) = clean_table df"
proof -
  let ?t = "clean_table df"
  have 1: "df_replace ''None'' ?t = ?t"
    using clean_table_cells [OF assms] by (intro df_replace_absent) blast
  have 2: "df_replace [] ?t = ?t"
    using clean_table_cells [OF assms] by (intro df_replace_absent) blast
  have 3: "dropna_rows ?t = ?t"
    using clean_table_no_empty_row [OF assms] by (intro dropna_rows_id) blast
  have "rectangular ?t"
    unfolding clean_table_def by (rule rectangular_dropna_columns)
  then have 4: "dropna_columns ?t = ?t"
    using clean_table_no_empty_column by (intro dropna_columns_id) blast+
  show ?thesis
    unfolding clean_table_def [of ?t] 1 2 3 4 ..
qed

text \<open>
  Claim C10. Cleaning a cleaned table changes nothing, and a table the normalizer
  accepts is accepted again, unchanged.
\<close>

theorem table_normalizer_idempotent:
  assumes "rectangular df"
  shows "clean_table (clean_table df) = clean_table df \<and>
         (normalize_table df = Some t \<longrightarrow> normalize_table t = Some t)"
  using clean_table_fixed [OF assms] by (auto simp: normalize_table_def split: if_splits)

lemmas df_eval = clean_table_def dropna_columns_def dropna_rows_def df_replace_def kept_columns_def
  column_cells_def isna_def rectangular_def normalize_table_def too_small_def shape_def

lemma example_raw_clean: "rectangular example_raw" "clean_table example_raw = example_clean"
  "normalize_table example_raw = Some example_clean"
  by (simp_all add: example_raw_def example_clean_def df_eval upt_rec)

theorem table_normalizer_steps_witness:
  "rectangular example_raw \<and> normalize_table example_raw = Some example_clean \<and>
   df_rows example_clean = [[Str ''Hb'', Str ''12.5''], [Str ''WBC'', Str ''7'']] \<and>
   length (df_rows example_clean) \<le> length (df_rows example_raw) \<and>
   list_all (\<lambda>r. \<not> list_all isna r) (df_rows example_clean)"
proof -
  from table_normalizer_steps [OF example_raw_clean(1)]
  have "length (df_rows (clean_table example_raw)) \<le> length (df_rows example_raw) \<and>
        list_all (\<lambda>r. \<not> list_all isna r) (df_rows (clean_table example_raw))"
    unfolding Let_def by blast
  then show ?thesis
    using example_raw_clean by (simp add: example_clean_def)
qed

theorem table_normalizer_idempotent_witness:
  "rectangular example_raw \<and> normalize_table example_raw = Some example_clean \<and>
   normalize_table example_clean = Some example_clean \<and> clean_table example_clean = example_clean"
  using table_normalizer_idempotent [OF example_raw_clean(1), of example_clean]
  by (simp add: example_raw_clean)

section \<open>Properties of the column classifier\<close>

lemma assign_loop_key:
  "assign_loop df js cm key =
     (case filter (\<lambda>j. column_role df j = Some key) js of
        [] \<Rightarrow> cm key
      | j # l \<Rightarrow> Some (df_columns df ! last (j # l)))"
proof (induction js arbitrary: cm)
  case Nil
  show ?case by simp
next
  case (Cons j js)
  show ?case
  proof (cases "column_role df j")
    case None
    then show ?thesis by (simp add: Cons)
  next
    case (Some k)
    then show ?thesis
      by (cases "k = key") (simp_all add: Cons split: list.splits)
  qed
qed

lemma assign_columns_key:
  "assign_columns df key =
     (case filter (\<lambda>j. column_role df j = Some key) [0..<length (df_columns df)] of
        [] \<Rightarrow> None
      | j # l \<Rightarrow> Some (df_columns df ! last (j # l)))"
  by (simp add: assign_columns_def assign_loop_key)

lemma assign_columns_label:
  assumes "assign_columns df key = Some c"
  shows "c \<in> set (df_columns df)"
proof -
  let ?l = "filter (\<lambda>j. column_role df j = Some key) [0..<length (df_columns df)]"
  from assms have ne: "?l \<noteq> []" and c: "c = df_columns df ! last ?l"
    unfolding assign_columns_key by (auto split: list.splits)
  from ne have "last ?l \<in> set ?l" by (rule last_in_set)
  then have "last ?l < length (df_columns df)" by simp
  with c show ?thesis by simp
qed

lemma positional_fallback_key:
  "positional_fallback columns cm key =
     (case cm key of
        Some c \<Rightarrow> Some c
      | None \<Rightarrow> if fallback_position key < length columns
                then Some (columns ! fallback_position key) else None)"
  by (cases key) (auto simp: positional_fallback_def Let_def split: option.splits)

lemmas str_eval = py_lower_def lower_char_def ascii_upper_def ascii_lower_def py_strip_def
  isspace_def py_space_def py_digits_def

lemmas classify_eval = column_role_def classify_column_def sample_values_def column_cells_def
  isna_def py_str_def name_words_def unit_words_def VALUE_RE_def RANGE_CELL_RE_def RPlus_def
  ROpt_def digdot_def

lemma example_shared_roles:
  "column_role example_shared 0 = Some Test_Value"
  "column_role example_shared 1 = Some Bio_Reference_Range"
  by (simp_all add: example_shared_def classify_eval str_eval)

lemma example_two_names_roles:
  "column_role example_two_names 0 = Some Test_Name"
  "column_role example_two_names 1 = Some Test_Name"
  "column_role example_two_names 2 = Some Test_Value"
  by (simp_all add: example_two_names_def classify_eval str_eval)

lemma example_shared_normal: "normalize_table example_shared = Some example_shared"
  by (simp add: example_shared_def df_eval upt_rec)

lemma example_two_names_normal: "normalize_table example_two_names = Some example_two_names"
  by (simp add: example_two_names_def df_eval upt_rec)

lemma example_shared_assign:
  "map (assign_columns example_shared) all_roles = [None, Some ''0'', Some ''1'', None]"
  using example_shared_roles
  by (simp add: assign_columns_def all_roles_def) (simp add: example_shared_def)

lemma example_two_names_assign:
  "map (assign_columns example_two_names) all_roles = [Some ''1'', Some ''2'', None, None]"
  using example_two_names_roles
  by (simp add: assign_columns_def all_roles_def eval_nat_numeral) (simp add: example_two_names_def)

lemma example_shared_mapping:
  "map_option (\<lambda>cm. map cm all_roles) (column_mapping example_shared) =
     Some [Some ''0'', Some ''0'', Some ''1'', None]"
  using example_shared_assign
  by (simp add: column_mapping_def dict_len_def all_roles_def positional_fallback_def Let_def)
     (simp add: example_shared_def)

lemma example_two_names_mapping:
  "map_option (\<lambda>cm. map cm all_roles) (column_mapping example_two_names) =
     Some [Some ''1'', Some ''2'', Some ''2'', None]"
  using example_two_names_assign
  by (simp add: column_mapping_def dict_len_def all_roles_def positional_fallback_def Let_def)
     (simp add: example_two_names_def)

text \<open>
  Claim C1, as stated, fails twice. In \<open>example_shared\<close>, a table the normalizer accepts,
  column 0 is taken for the values and column 1 for the ranges; the fallback then gives
  the name the column at position 0, so the keys \<^verbatim>\<open>test_name\<close> and \<^verbatim>\<open>test_value\<close> hold
  the same column. In \<open>example_two_names\<close> the columns 0 and 1 both match the rule of
  the names, and the key \<^verbatim>\<open>test_name\<close> ends on column 1: the later column replaced the
  earlier one.
\<close>

theorem column_mapping_shares_and_reassigns:
  "normalize_table example_shared = Some example_shared \<and>
   map_option (\<lambda>cm. map cm all_roles) (column_mapping example_shared) =
     Some [Some ''0'', Some ''0'', Some ''1'', None] \<and>
   normalize_table example_two_names = Some example_two_names \<and>
   column_role example_two_names 0 = Some Test_Name \<and>
   column_role example_two_names 1 = Some Test_Name \<and>
   map (assign_columns example_two_names) all_roles = [Some ''1'', Some ''2'', None, None]"
  using example_shared_normal example_shared_mapping example_two_names_normal
    example_two_names_roles(1,2) example_two_names_assign
  by (intro conjI)

text \<open>
  Claim C1, amended. The mapping is a partial function from the keys to the labels of
  the table. After the loop over the columns a key holds the last column whose first
  matching rule is the key's (none if there is no such column); the table is skipped
  exactly when fewer than 2 keys are held; otherwise the fallback leaves every held key
  as it is and gives a key that is not held the column at its own position (0, 1, 2, 3)
  if the table has that many columns, whether or not another key holds that column.
\<close>

theorem column_mapping_spec:
  "assign_columns df key =
     (case filter (\<lambda>j. column_role df j = Some key) [0..<length (df_columns df)] of
        [] \<Rightarrow> None
      | j # l \<Rightarrow> Some (df_columns df ! last (j # l))) \<and>
   (column_mapping df = None \<longleftrightarrow> dict_len (assign_columns df) < 2) \<and>
   (column_mapping df = Some cm \<longrightarrow>
      cm key = (case assign_columns df key of
                  Some c \<Rightarrow> Some c
                | None \<Rightarrow> if fallback_position key < length (df_columns df)
                          then Some (df_columns df ! fallback_position key) else None)) \<and>
   (column_mapping df = Some cm \<and> cm key = Some c \<longrightarrow> c \<in> set (df_columns df))"
proof -
  have 1: "column_mapping df = None \<longleftrightarrow> dict_len (assign_columns df) < 2"
    by (simp add: column_mapping_def Let_def)
  have 2: "cm key = (case assign_columns df key of
                  Some c \<Rightarrow> Some c
                | None \<Rightarrow> if fallback_position key < length (df_columns df)
                          then Some (df_columns df ! fallback_position key) else None)"
    if "column_mapping df = Some cm"
  proof -
    from that have "cm = positional_fallback (df_columns df) (assign_columns df)"
      by (auto simp: column_mapping_def Let_def split: if_splits)
    then show ?thesis by (simp only: positional_fallback_key)
  qed
  have 3: "c \<in> set (df_columns df)" if "column_mapping df = Some cm" "cm key = Some c"
    using 2 [OF that(1)] that(2) assign_columns_label [of df key]
    by (auto split: option.splits if_splits)
  from 1 2 3 show ?thesis
    using assign_columns_key [of df key] by blast
qed

theorem column_mapping_spec_witness:
  "map_option (\<lambda>cm. map cm all_roles) (column_mapping example_two_names) =
     Some [Some ''1'', Some ''2'', Some ''2'', None] \<and>
   assign_columns example_two_names Bio_Reference_Range = None \<and>
   fallback_position Bio_Reference_Range < length (df_columns example_two_names) \<and>
   df_columns example_two_names ! fallback_position Bio_Reference_Range = ''2'' \<and>
   ''2'' \<in> set (df_columns example_two_names)"
proof -
  obtain cm where cm: "column_mapping example_two_names = Some cm"
    and v: "map cm all_roles = [Some ''1'', Some ''2'', Some ''2'', None]"
    using example_two_names_mapping by (cases "column_mapping example_two_names") auto
  from column_mapping_spec [of example_two_names Bio_Reference_Range cm "''2''"] cm v
  have "''2'' \<in> set (df_columns example_two_names)"
    by (simp add: all_roles_def)
  moreover from column_mapping_spec [of example_two_names Bio_Reference_Range cm "''2''"] cm v
  have "assign_columns example_two_names Bio_Reference_Range = None"
    using example_two_names_assign by (simp add: all_roles_def)
  ultimately show ?thesis
    using example_two_names_mapping by (simp add: example_two_names_def)
qed

section \<open>Properties of the rows\<close>

lemma parse_empty: "parse_reference_range [] = Inr (None, None)"
  by (simp add: parse_reference_range_def re_eval)

lemma is_out_empty_range: "is_out_of_range v [] = None"
  by (simp add: is_out_of_range_def parse_empty split: option.splits)

lemmas row_eval = process_row_def row_get_def placeholder_def split_value_unit_def py_split_def
  py_str_def

lemma split_examples:
  "py_split ''12.5 g/dL'' = [''12.5'', ''g/dL'']"
  "py_split ''7 /cumm'' = [''7'', ''/cumm'']"
  "py_split ''  1 mg / dL '' = [''1'', ''mg'', ''/'', ''dL'']"
  by (simp_all add: py_split_def isspace_def py_space_def)

lemma process_row_never_raises: "process_row cm columns row \<noteq> Inl e"
  by (simp add: process_row_def Let_def split: prod.splits)

lemma process_row_Some:
  "process_row cm columns row = Inr (Some t) \<longleftrightarrow>
     \<not> placeholder (py_strip (row_get cm columns row Test_Name)) \<and>
     \<not> placeholder (py_strip (row_get cm columns row Test_Value)) \<and>
     t = \<lparr>test_name = py_strip (row_get cm columns row Test_Name),
          test_value = fst (split_value_unit (py_strip (row_get cm columns row Test_Value))
                             (py_strip (row_get cm columns row Test_Unit))),
          bio_reference_range = py_strip (row_get cm columns row Bio_Reference_Range),
          test_unit = snd (split_value_unit (py_strip (row_get cm columns row Test_Value))
                            (py_strip (row_get cm columns row Test_Unit))),
          lab_test_out_of_range =
            (case is_out_of_range
                    (fst (split_value_unit (py_strip (row_get cm columns row Test_Value))
                           (py_strip (row_get cm columns row Test_Unit))))
                    (py_strip (row_get cm columns row Bio_Reference_Range)) of
               None \<Rightarrow> False | Some b \<Rightarrow> b)\<rparr>"
  by (auto simp: process_row_def Let_def split: prod.splits)

lemma process_row_None:
  "process_row cm columns row = Inr None \<longleftrightarrow>
     placeholder (py_strip (row_get cm columns row Test_Name)) \<or>
     placeholder (py_strip (row_get cm columns row Test_Value))"
  by (auto simp: process_row_def Let_def split: prod.splits)

text \<open>
  Claim C6. A row yields a record exactly when the name and the value it resolves to,
  stripped, are not empty and do not lower-case to \<^verbatim>\<open>none\<close>, \<^verbatim>\<open>nan\<close> or the empty
  string; otherwise it is skipped. The flag of a record is the result of
  \<open>is_out_of_range\<close> on the record's value and range, with \<open>None\<close> turned into \<open>False\<close>: a
  range or value that cannot be parsed never prevents the record.
\<close>

theorem record_built_iff_name_and_value:
  "(let name = py_strip (row_get cm columns row Test_Name);
        v = py_strip (row_get cm columns row Test_Value)
    in ((\<exists>t. process_row cm columns row = Inr (Some t)) \<longleftrightarrow>
          name \<noteq> [] \<and> py_lower name \<notin> set [''none'', ''nan'', []] \<and>
          v \<noteq> [] \<and> py_lower v \<notin> set [''none'', ''nan'', []]) \<and>
       ((\<exists>t. process_row cm columns row = Inr (Some t)) \<or> process_row cm columns row = Inr None) \<and>
       (process_row cm columns row = Inr (Some t) \<longrightarrow>
          test_name t = name \<and>
          lab_test_out_of_range t =
            (case is_out_of_range (test_value t) (bio_reference_range t) of
               None \<Rightarrow> False | Some b \<Rightarrow> b)))"
proof -
  have "(\<exists>t. process_row cm columns row = Inr (Some t)) \<or> process_row cm columns row = Inr None"
    unfolding process_row_Some process_row_None by blast
  moreover have "(\<exists>t. process_row cm columns row = Inr (Some t)) \<longleftrightarrow>
      \<not> placeholder (py_strip (row_get cm columns row Test_Name)) \<and>
      \<not> placeholder (py_strip (row_get cm columns row Test_Value))"
    unfolding process_row_Some by blast
  moreover have "process_row cm columns row = Inr (Some t) \<longrightarrow>
      test_name t = py_strip (row_get cm columns row Test_Name) \<and>
      lab_test_out_of_range t =
        (case is_out_of_range (test_value t) (bio_reference_range t) of None \<Rightarrow> False | Some b \<Rightarrow> b)"
    unfolding process_row_Some by auto
  ultimately show ?thesis
    unfolding Let_def placeholder_def by simp
qed

lemma example_row_record:
  "process_row example_map [''0'', ''1'', ''2''] example_row =
     Inr (Some \<lparr>test_name = ''Glucose'', test_value = ''Positive'',
                 bio_reference_range = ''70-110'', test_unit = [],
                 lab_test_out_of_range = False\<rparr>)"
  by (simp add: example_map_def example_row_def row_eval str_eval is_out_examples)

theorem record_built_iff_name_and_value_witness:
  "py_strip (row_get example_map [''0'', ''1'', ''2''] example_row Test_Name) = ''Glucose'' \<and>
   py_strip (row_get example_map [''0'', ''1'', ''2''] example_row Test_Value) = ''Positive'' \<and>
   is_out_of_range ''Positive'' ''70-110'' = None \<and>
   (\<exists>t. process_row example_map [''0'', ''1'', ''2''] example_row = Inr (Some t) \<and>
        test_value t = ''Positive'' \<and> bio_reference_range t = ''70-110'' \<and>
        lab_test_out_of_range t = False)"
  using record_built_iff_name_and_value [of example_map "[''0'', ''1'', ''2'']" example_row
      "\<lparr>test_name = ''Glucose'', test_value = ''Positive'',
        bio_reference_range = ''70-110'', test_unit = [], lab_test_out_of_range = False\<rparr>"]
  by (simp add: example_row_record is_out_examples)
     (simp add: example_map_def example_row_def row_get_def py_str_def str_eval)

lemma example_unit_row:
  "process_row [Test_Name \<mapsto> ''0'', Test_Value \<mapsto> ''1''] [''0'', ''1''] [Str ''Hb'', Str ''12.5 g/dL''] =
     Inr (Some \<lparr>test_name = ''Hb'', test_value = ''12.5'', bio_reference_range = [],
                 test_unit = ''g/dL'', lab_test_out_of_range = False\<rparr>)"
  by (simp add: row_eval str_eval is_out_empty_range)

text \<open>
  Claim C9. For a row with a name and a value that are kept, an empty unit, a value
  that contains a slash and splits on whitespace into more than one part, the record
  holds the first part as its value and the other parts, joined by one space, as its
  unit. The value cell \<^verbatim>\<open>12.5 g/dL\<close> with no unit column gives the value \<^verbatim>\<open>12.5\<close> and the
  unit \<^verbatim>\<open>g/dL\<close>.
\<close>

theorem value_unit_fallback_split:
  "(let name = py_strip (row_get cm columns row Test_Name);
        v = py_strip (row_get cm columns row Test_Value);
        u = py_strip (row_get cm columns row Test_Unit);
        parts = py_split v
    in \<not> placeholder name \<and> \<not> placeholder v \<and>
       u = [] \<and> CHR ''/'' \<in> set v \<and> 1 < length parts \<longrightarrow>
         (\<exists>t. process_row cm columns row = Inr (Some t) \<and>
              test_value t = hd parts \<and> test_unit t = py_join '' '' (tl parts))) \<and>
   py_split ''12.5 g/dL'' = [''12.5'', ''g/dL''] \<and>
   process_row [Test_Name \<mapsto> ''0'', Test_Value \<mapsto> ''1''] [''0'', ''1''] [Str ''Hb'', Str ''12.5 g/dL''] =
     Inr (Some \<lparr>test_name = ''Hb'', test_value = ''12.5'', bio_reference_range = [],
                 test_unit = ''g/dL'', lab_test_out_of_range = False\<rparr>)"
proof -
  have "\<exists>t. process_row cm columns row = Inr (Some t) \<and>
          test_value t = hd (py_split (py_strip (row_get cm columns row Test_Value))) \<and>
          test_unit t = py_join '' '' (tl (py_split (py_strip (row_get cm columns row Test_Value))))"
    if "\<not> placeholder (py_strip (row_get cm columns row Test_Name))"
      "\<not> placeholder (py_strip (row_get cm columns row Test_Value))"
      "py_strip (row_get cm columns row Test_Unit) = []"
      "CHR ''/'' \<in> set (py_strip (row_get cm columns row Test_Value))"
      "1 < length (py_split (py_strip (row_get cm columns row Test_Value)))"
    unfolding process_row_Some using that by (simp add: split_value_unit_def Let_def)
  then show ?thesis
    unfolding Let_def using split_examples(1) example_unit_row by blast
qed

theorem value_unit_fallback_split_witness:
  "py_strip (row_get [Test_Name \<mapsto> ''0'', Test_Value \<mapsto> ''1''] [''0'', ''1'']
      [Str ''WBC'', Str ''7 /cumm''] Test_Unit) = [] \<and>
   py_split ''7 /cumm'' = [''7'', ''/cumm''] \<and>
   (\<exists>t. process_row [Test_Name \<mapsto> ''0'', Test_Value \<mapsto> ''1''] [''0'', ''1'']
           [Str ''WBC'', Str ''7 /cumm''] = Inr (Some t) \<and>
        test_value t = ''7'' \<and> test_unit t = ''/cumm'')"
  using value_unit_fallback_split [of "[Test_Name \<mapsto> ''0'', Test_Value \<mapsto> ''1'']" "[''0'', ''1'']"
      "[Str ''WBC'', Str ''7 /cumm'']"]
  by (simp add: row_get_def py_str_def placeholder_def str_eval split_examples Let_def)


lemma rows_loop_concat:
  "rows_loop body rows acc =
     acc @ concat (map (\<lambda>row. case body row of Inl e \<Rightarrow> [] | Inr None \<Rightarrow> [] | Inr (Some t) \<Rightarrow> [t]) rows)"
  by (induction rows arbitrary: acc) (simp_all split: sum.splits option.splits)

lemma process_table_acc: "process_table table acc = acc @ process_table table []"
  unfolding process_table_def
  using rows_loop_concat [of _ _ acc] rows_loop_concat [of _ _ "[]"]
  by (simp split: option.splits)

lemma tables_loop_concat:
  "tables_loop tables acc = acc @ concat (map (\<lambda>table. process_table table []) tables)"
proof (induction tables arbitrary: acc)
  case Nil
  show ?case by simp
next
  case (Cons table rest)
  show ?case
    using process_table_acc [of table acc] by (simp add: Cons)
qed

text \<open>
  Claim C8. The loop over the rows appends, in order, the record of every row whose body
  returns one, whatever the other rows do: a row whose body raises adds nothing and the
  loop result is that of the rows without it. The loop over the tables concatenates what
  each table yields on its own; a table rejected as too small or for its mapping yields
  nothing and the result is that of the other tables.
\<close>

theorem failures_stay_local:
  "rows_loop body rows acc =
     acc @ concat (map (\<lambda>row. case body row of Inl e \<Rightarrow> [] | Inr None \<Rightarrow> [] | Inr (Some t) \<Rightarrow> [t]) rows) \<and>
   (body row = Inl e \<longrightarrow>
      rows_loop body (before @ row # after) acc = rows_loop body (before @ after) acc) \<and>
   tables_loop tables acc = acc @ concat (map (\<lambda>table. process_table table []) tables) \<and>
   (normalize_table table = None \<longrightarrow>
      process_table table [] = [] \<and>
      tables_loop (tables1 @ table # tables2) acc = tables_loop (tables1 @ tables2) acc) \<and>
   (normalize_table table = Some df \<and> column_mapping df = None \<longrightarrow>
      process_table table [] = [] \<and>
      tables_loop (tables1 @ table # tables2) acc = tables_loop (tables1 @ tables2) acc)"
proof -
  have "rows_loop body (before @ row # after) acc = rows_loop body (before @ after) acc"
    if "body row = Inl e"
    using that by (simp add: rows_loop_concat)
  moreover have "process_table table [] = [] \<and>
      tables_loop (tables1 @ table # tables2) acc = tables_loop (tables1 @ tables2) acc"
    if "normalize_table table = None"
    using that by (simp add: tables_loop_concat process_table_def)
  moreover have "process_table table [] = [] \<and>
      tables_loop (tables1 @ table # tables2) acc = tables_loop (tables1 @ tables2) acc"
    if "normalize_table table = Some df \<and> column_mapping df = None"
    using that by (simp add: tables_loop_concat process_table_def)
  ultimately show ?thesis
    using rows_loop_concat [of body rows acc] tables_loop_concat [of tables acc] by blast
qed

section \<open>Properties of the tables and of the response\<close>

lemma example_one_row_rejected: "normalize_table example_one_row = None"
  by (simp add: example_one_row_def df_eval upt_rec)

lemma example_unit_normal: "normalize_table example_unit = Some example_unit"
  by (simp add: example_unit_def df_eval upt_rec)

lemma example_names_only_normal: "normalize_table example_names_only = Some example_names_only"
  by (simp add: example_names_only_def df_eval upt_rec)

lemma example_unit_roles:
  "column_role example_unit 0 = Some Test_Name" "column_role example_unit 1 = Some Test_Value"
  by (simp_all add: example_unit_def classify_eval str_eval)

lemma example_names_only_roles:
  "column_role example_names_only 0 = Some Test_Name"
  "column_role example_names_only 1 = Some Test_Name"
  by (simp_all add: example_names_only_def classify_eval str_eval)

lemma example_names_only_rejected: "column_mapping example_names_only = None"
  using example_names_only_roles
  by (simp add: column_mapping_def assign_columns_def dict_len_def all_roles_def)
     (simp add: example_names_only_def)

lemma example_unit_mapping:
  "column_mapping example_unit = Some [Test_Name \<mapsto> ''0'', Test_Value \<mapsto> ''1'']"
  using example_unit_roles
  by (simp add: column_mapping_def assign_columns_def dict_len_def all_roles_def
      positional_fallback_def Let_def)
     (simp add: example_unit_def)

lemma example_unit_table: "process_table example_unit [] = example_unit_records"
proof -
  have "process_table example_unit [] =
      rows_loop (process_row [Test_Name \<mapsto> ''0'', Test_Value \<mapsto> ''1''] (df_columns example_unit))
        (df_rows example_unit) []"
    by (simp add: process_table_def example_unit_normal example_unit_mapping)
  also have "\<dots> = example_unit_records"
    by (simp add: example_unit_def example_unit_records_def row_eval str_eval is_out_empty_range)
  finally show ?thesis .
qed

lemma example_body_values:
  "example_body [] = Inl RuntimeError"
  "example_body example_row =
     Inr (Some \<lparr>test_name = ''Glucose'', test_value = ''Positive'',
                 bio_reference_range = ''70-110'', test_unit = [],
                 lab_test_out_of_range = False\<rparr>)"
  by (simp_all add: example_body_def example_row_record) (simp add: example_row_def)

theorem failures_stay_local_witness:
  "example_body [] = Inl RuntimeError \<and>
   rows_loop example_body [[], example_row] [] =
     [\<lparr>test_name = ''Glucose'', test_value = ''Positive'',
       bio_reference_range = ''70-110'', test_unit = [], lab_test_out_of_range = False\<rparr>] \<and>
   normalize_table example_one_row = None \<and>
   normalize_table example_names_only = Some example_names_only \<and>
   column_mapping example_names_only = None \<and>
   tables_loop [example_one_row, example_unit, example_names_only] [] = example_unit_records"
proof -
  have "rows_loop example_body ([] @ [] # [example_row]) [] = rows_loop example_body ([] @ [example_row]) []"
    using failures_stay_local [of example_body "[]" "[]" "[]" RuntimeError "[]" "[example_row]"]
      example_body_values(1) by blast
  then have 1: "rows_loop example_body [[], example_row] [] =
     [\<lparr>test_name = ''Glucose'', test_value = ''Positive'',
       bio_reference_range = ''70-110'', test_unit = [], lab_test_out_of_range = False\<rparr>]"
    by (simp add: example_body_values)
  have "tables_loop ([] @ example_one_row # [example_unit, example_names_only]) [] =
      tables_loop ([] @ [example_unit, example_names_only]) []"
    using failures_stay_local [of example_body "[]" "[]" "[]" RuntimeError "[]" "[]" "[]" example_one_row
        "[]" "[example_unit, example_names_only]" example_one_row]
      example_one_row_rejected by blast
  moreover have "tables_loop ([example_unit] @ example_names_only # []) [] =
      tables_loop ([example_unit] @ []) []"
    using failures_stay_local [of example_body "[]" "[]" "[]" RuntimeError "[]" "[]" "[]" example_names_only
        "[example_unit]" "[]" example_names_only]
      example_names_only_normal example_names_only_rejected by blast
  ultimately have 2: "tables_loop [example_one_row, example_unit, example_names_only] [] = example_unit_records"
    by (simp add: example_unit_table)
  from 1 2 show ?thesis
    using example_body_values(1) example_one_row_rejected example_names_only_normal
      example_names_only_rejected by blast
qed

text \<open>
  Claim C7, as stated, fails: \<^verbatim>\<open>cv2.imread\<close> returns an image, table extraction raises, and
  the handler of line 225 answers with \<^verbatim>\<open>is_success=False\<close>.
\<close>

theorem decoded_image_without_success:
  "imread example_extraction_fails = Some [0, 0, 0] \<and>
   get_lab_tests example_extraction_fails = \<lparr>is_success = False, data = []\<rparr>"
  by (simp add: example_extraction_fails_def get_lab_tests_def failure_def)

text \<open>
  Claim C7, amended. The response has \<^verbatim>\<open>is_success=True\<close> exactly when the upload was
  saved, the image was decoded, preprocessing and table extraction returned tables and the
  temporary files were removed; it then carries the records of all tables. In every other
  case the record list is empty. No table, or only rejected tables, gives success with an
  empty list.
\<close>

theorem response_success_iff:
  "(is_success (get_lab_tests env) \<longleftrightarrow>
      save_upload env = Inr () \<and> (\<exists>img. imread env = Some img) \<and>
      (\<exists>tables. extract_tables env = Inr tables) \<and> remove_files env = Inr ()) \<and>
   (is_success (get_lab_tests env) \<and> extract_tables env = Inr tables \<longrightarrow>
      data (get_lab_tests env) = tables_loop tables []) \<and>
   (is_success (get_lab_tests env) \<or> data (get_lab_tests env) = []) \<and>
   tables_loop [] [] = [] \<and>
   (list_all (\<lambda>table. case normalize_table table of
                          None \<Rightarrow> True
                        | Some df \<Rightarrow> column_mapping df = None) tables \<longrightarrow>
      tables_loop tables [] = [])"
proof -
  have "tables_loop tables [] = []"
    if "list_all (\<lambda>table. case normalize_table table of
                          None \<Rightarrow> True
                        | Some df \<Rightarrow> column_mapping df = None) tables"
  proof -
    have "process_table table [] = []" if "table \<in> set tables" for table
      using that \<open>list_all _ tables\<close>
      by (auto simp: list_all_iff process_table_def split: option.splits)
    then show ?thesis by (simp add: tables_loop_concat)
  qed
  moreover have "is_success (get_lab_tests env) \<longleftrightarrow>
      save_upload env = Inr () \<and> (\<exists>img. imread env = Some img) \<and>
      (\<exists>tables. extract_tables env = Inr tables) \<and> remove_files env = Inr ()"
    by (simp add: get_lab_tests_def failure_def Let_def split: sum.splits option.splits)
  moreover have "is_success (get_lab_tests env) \<and> extract_tables env = Inr tables \<longrightarrow>
      data (get_lab_tests env) = tables_loop tables []"
    by (simp add: get_lab_tests_def failure_def Let_def split: sum.splits option.splits)
  moreover have "is_success (get_lab_tests env) \<or> data (get_lab_tests env) = []"
    by (simp add: get_lab_tests_def failure_def Let_def split: sum.splits option.splits)
  ultimately show ?thesis by simp
qed

theorem response_success_iff_witness:
  "get_lab_tests example_upload = \<lparr>is_success = True, data = example_unit_records\<rparr> \<and>
   get_lab_tests (example_upload\<lparr>extract_tables := Inr []\<rparr>) = \<lparr>is_success = True, data = []\<rparr> \<and>
   get_lab_tests (example_upload\<lparr>extract_tables := Inr [example_one_row, example_names_only]\<rparr>) =
     \<lparr>is_success = True, data = []\<rparr> \<and>
   get_lab_tests (example_upload\<lparr>imread := None\<rparr>) = \<lparr>is_success = False, data = []\<rparr>"
proof -
  have t: "tables_loop [example_one_row, example_unit, example_names_only] [] = example_unit_records"
    by (simp add: process_table_def example_one_row_rejected example_names_only_normal
        example_names_only_rejected example_unit_table [unfolded process_table_def])
  have 1: "get_lab_tests example_upload = \<lparr>is_success = True, data = example_unit_records\<rparr>"
    using response_success_iff [of example_upload "[example_one_row, example_unit, example_names_only]"] t
    by (simp add: example_upload_def)
  have 2: "get_lab_tests (example_upload\<lparr>extract_tables := Inr []\<rparr>) = \<lparr>is_success = True, data = []\<rparr>"
    using response_success_iff [of "example_upload\<lparr>extract_tables := Inr []\<rparr>" "[]"]
    by (simp add: example_upload_def)
  have 3: "get_lab_tests (example_upload\<lparr>extract_tables := Inr [example_one_row, example_names_only]\<rparr>) =
     \<lparr>is_success = True, data = []\<rparr>"
    using response_success_iff [of "example_upload\<lparr>extract_tables := Inr [example_one_row, example_names_only]\<rparr>"
        "[example_one_row, example_names_only]"]
    by (simp add: example_upload_def example_one_row_rejected example_names_only_normal
        example_names_only_rejected)
  have "\<not> is_success (get_lab_tests (example_upload\<lparr>imread := None\<rparr>)) \<and>
        data (get_lab_tests (example_upload\<lparr>imread := None\<rparr>)) = []"
    using response_success_iff [of "example_upload\<lparr>imread := None\<rparr>" "[]"]
    by (auto simp: example_upload_def)
  then have 4: "get_lab_tests (example_upload\<lparr>imread := None\<rparr>) = \<lparr>is_success = False, data = []\<rparr>"
    by (cases "get_lab_tests (example_upload\<lparr>imread := None\<rparr>)") simp
  from 1 2 3 4 show ?thesis by blast
qed

section \<open>The end-to-end scenario of the specification\<close>

text \<open>
  The model on the scenario the specification gives: the first two rows yield records
  with the flags \<open>False\<close> and \<open>True\<close>, and the third row, whose value is empty, is skipped.
\<close>

lemma bitlen_report:
  "bitlen 13 = 4" "bitlen 16 = 5" "bitlen 17 = 5" "bitlen 4000 = 12" "bitlen 11000 = 14"
  "bitlen 11200 = 14"
  by (code_simp, code_simp, code_simp, code_simp, code_simp, code_simp)

lemma binary64_report:
  "binary64 13 = Finite 13" "binary64 (33 / 2) = Finite (33 / 2)" "binary64 17 = Finite 17"
  "binary64 4000 = Finite 4000" "binary64 11000 = Finite 11000" "binary64 11200 = Finite 11200"
  by (rule binary64_exact [where e = 3 and n = "13 * 2 ^ 49"],
      simp_all add: floor_log2_def floor_rat_numeral bitlen_report pow2_def,
      rule binary64_exact [where e = 4 and n = "33 * 2 ^ 47"],
      simp_all add: floor_log2_def floor_rat_numeral bitlen_report pow2_def,
      rule binary64_exact [where e = 4 and n = "17 * 2 ^ 48"],
      simp_all add: floor_log2_def floor_rat_numeral bitlen_report pow2_def,
      rule binary64_exact [where e = 11 and n = "4000 * 2 ^ 41"],
      simp_all add: floor_log2_def floor_rat_numeral bitlen_report pow2_def,
      rule binary64_exact [where e = 13 and n = "11000 * 2 ^ 39"],
      simp_all add: floor_log2_def floor_rat_numeral bitlen_report pow2_def,
      rule binary64_exact [where e = 13 and n = "11200 * 2 ^ 39"],
      simp_all add: floor_log2_def floor_rat_numeral bitlen_report pow2_def)

lemma py_float_report:
  "py_float ''13.0'' = Some (Finite 13)" "py_float ''16.5'' = Some (Finite (33 / 2))"
  "py_float ''17.0'' = Some (Finite 17)" "py_float ''4000'' = Some (Finite 4000)"
  "py_float ''11000'' = Some (Finite 11000)" "py_float ''11200'' = Some (Finite 11200)"
  by (simp_all add: float_eval binary64_report)

lemma is_out_report:
  "is_out_of_range ''16.5'' ''13.0-17.0'' = Some False"
  "is_out_of_range ''11200'' ''4000-11000'' = Some True"
  by (simp_all add: is_out_of_range_def parse_reference_range_def re_eval group_eval py_float_report)

lemma example_report_normal: "normalize_table example_report = Some example_report_clean"
  by (simp add: example_report_def example_report_clean_def df_eval upt_rec)

lemma example_report_roles:
  "column_role example_report_clean 0 = Some Test_Name"
  "column_role example_report_clean 1 = Some Test_Value"
  "column_role example_report_clean 2 = Some Bio_Reference_Range"
  "column_role example_report_clean 3 = Some Test_Unit"
  by (simp_all add: example_report_clean_def classify_eval str_eval)

lemma example_report_mapping:
  "column_mapping example_report_clean =
     Some [Test_Name \<mapsto> ''Test'', Test_Value \<mapsto> ''Result'',
           Bio_Reference_Range \<mapsto> ''Bio. Ref. Range'', Test_Unit \<mapsto> ''Unit'']"
  using example_report_roles
  by (simp add: column_mapping_def assign_columns_def dict_len_def all_roles_def
      positional_fallback_def Let_def eval_nat_numeral)
     (simp add: example_report_clean_def)

lemma example_report_table: "process_table example_report [] = example_report_records"
proof -
  have "process_table example_report [] =
      rows_loop (process_row [Test_Name \<mapsto> ''Test'', Test_Value \<mapsto> ''Result'',
           Bio_Reference_Range \<mapsto> ''Bio. Ref. Range'', Test_Unit \<mapsto> ''Unit''] (df_columns example_report_clean))
        (df_rows example_report_clean) []"
    by (simp add: process_table_def example_report_normal example_report_mapping)
  also have "\<dots> = example_report_records"
    by (simp add: example_report_clean_def example_report_records_def row_eval str_eval is_out_report)
  finally show ?thesis .
qed

end
